theory Spec2Isabelle
  imports Complex_Main
begin

section \<open>JavaScript values\<close>

text \<open>
  The helpers of \<^verbatim>\<open>block_test_helpers.mocha.js\<close> are dynamically typed: they test
  truthiness, \<^verbatim>\<open>typeof\<close>, \<^verbatim>\<open>Array.isArray\<close> and \<^verbatim>\<open>!== undefined\<close> on the fields of the
  test cases and on what the generator returns. The values are therefore modelled as one
  datatype. Blocks, workspaces and DOM nodes are objects, known by their reference only.
  A finite number is a rational; \<open>JFun\<close> is a function of the toolkit, known by its
  identity; \<open>JStub v\<close> is a sinon stub configured to return \<open>v\<close> at every call.
\<close>

datatype jsval =
    JUndefined
  | JNull
  | JBool bool
  | JNum rat
  | JNaN
  | JStr string
  | JRegExp string
  | JArr "jsval list"
  | JObj nat
  | JFun nat
  | JStub jsval

text \<open>Truthiness, as \<^verbatim>\<open>if (v)\<close>, \<^verbatim>\<open>!v\<close>, \<^verbatim>\<open>a && b\<close> and \<^verbatim>\<open>a || b\<close> read it.\<close>

fun truthy :: "jsval \<Rightarrow> bool" where
  "truthy JUndefined = False"
| "truthy JNull = False"
| "truthy (JBool b) = b"
| "truthy (JNum r) = (r \<noteq> 0)"
| "truthy JNaN = False"
| "truthy (JStr s) = (s \<noteq> [])"
| "truthy (JRegExp p) = True"
| "truthy (JArr xs) = True"
| "truthy (JObj r) = True"
| "truthy (JFun f) = True"
| "truthy (JStub v) = True"

text \<open>\<^verbatim>\<open>a || b\<close> on values: the left operand when it is truthy, the right one otherwise.\<close>

definition js_or :: "jsval \<Rightarrow> jsval \<Rightarrow> jsval" where
  "js_or a b = (if truthy a then a else b)"

fun js_typeof :: "jsval \<Rightarrow> string" where
  "js_typeof JUndefined = ''undefined''"
| "js_typeof JNull = ''object''"
| "js_typeof (JBool b) = ''boolean''"
| "js_typeof (JNum r) = ''number''"
| "js_typeof JNaN = ''number''"
| "js_typeof (JStr s) = ''string''"
| "js_typeof (JRegExp p) = ''object''"
| "js_typeof (JArr xs) = ''object''"
| "js_typeof (JObj r) = ''object''"
| "js_typeof (JFun f) = ''function''"
| "js_typeof (JStub v) = ''function''"

fun isArray :: "jsval \<Rightarrow> bool" where
  "isArray (JArr xs) = True"
| "isArray v = False"

text \<open>
  \<^verbatim>\<open>a[i]\<close> on an array: reading past the end gives \<^verbatim>\<open>undefined\<close>. The source indexes
  only values for which \<^verbatim>\<open>Array.isArray\<close> holds.
\<close>

fun js_index :: "jsval \<Rightarrow> nat \<Rightarrow> jsval" where
  "js_index (JArr xs) i = (if i < length xs then xs ! i else JUndefined)"
| "js_index v i = JUndefined"

section \<open>The world the helpers run in\<close>

text \<open>
  A property of an object is addressed by the object's reference and the property's name;
  a property that was never written reads as \<^verbatim>\<open>undefined\<close>. The default sandbox of sinon
  is the list of the properties it has stubbed, each with the value to write back. What
  else the toolkit keeps (workspaces, blocks, the generator's name database) is the
  component \<open>ext\<close>, of a type the helpers know nothing about.
\<close>

type_synonym loc = "nat \<times> string"

record 'w world =
  heap :: "loc \<Rightarrow> jsval"
  sandbox :: "(loc \<times> jsval) list"
  ext :: 'w

datatype error = AssertionError | TypeError | Thrown jsval

text \<open>
  Every call the helpers make to a collaborator is recorded, with its arguments, in the
  order of the calls.
\<close>

datatype event =
    CallCreateBlock jsval
  | CallWorkspaceToCode jsval
  | CallInit jsval
  | CallBlockToCode jsval
  | CallAssertEqual jsval jsval
  | CallAssertMatch jsval jsval
  | CallTextToDom jsval
  | CallDomToBlock jsval jsval
  | CallBlockToDom jsval
  | CallDomToPrettyText jsval
  | CallAssertBlockStructure jsval

text \<open>
  A computation of the helpers takes the world and gives a result or the exception it
  threw, the world it leaves, and the calls it made. A function of a collaborator reads
  the whole world (the toolkit draws its identifiers from the function installed at that
  moment), returns or throws, and leaves a new \<open>ext\<close>.
\<close>

type_synonym ('a, 'w) js = "'w world \<Rightarrow> (error + 'a) \<times> 'w world \<times> event list"

type_synonym 'w extfn = "'w world \<Rightarrow> (error + jsval) \<times> 'w"

definition ret :: "'a \<Rightarrow> ('a, 'w) js" where
  "ret x s = (Inr x, s, [])"

definition bindJ :: "('a, 'w) js \<Rightarrow> ('a \<Rightarrow> ('b, 'w) js) \<Rightarrow> ('b, 'w) js" where
  "bindJ m f s =
     (case m s of
        (Inl e, s1, ev1) \<Rightarrow> (Inl e, s1, ev1)
      | (Inr x, s1, ev1) \<Rightarrow> (case f x s1 of (r, s2, ev2) \<Rightarrow> (r, s2, ev1 @ ev2)))"

definition call :: "event \<Rightarrow> 'w extfn \<Rightarrow> (jsval, 'w) js" where
  "call ev f s = (case f s of (r, w) \<Rightarrow> (r, s\<lparr>ext := w\<rparr>, [ev]))"

definition result :: "(error + 'a) \<times> 'w world \<times> event list \<Rightarrow> error + 'a" where
  "result r = fst r"

definition final :: "(error + 'a) \<times> 'w world \<times> event list \<Rightarrow> 'w world" where
  "final r = fst (snd r)"

definition events :: "(error + 'a) \<times> 'w world \<times> event list \<Rightarrow> event list" where
  "events r = snd (snd r)"

section \<open>The assertion library\<close>

text \<open>
  \<^verbatim>\<open>assert.equal(actual, expected)\<close> of chai passes when \<^verbatim>\<open>actual == expected\<close>.
  Between two strings, two numbers, two booleans and two object references \<^verbatim>\<open>==\<close>
  compares the values; \<^verbatim>\<open>null\<close> and \<^verbatim>\<open>undefined\<close> equal each other and nothing else;
  \<^verbatim>\<open>NaN\<close> equals nothing. The comparisons that convert an operand first, and those
  between arrays and functions (which have an identity the datatype does not keep), are left
  to the parameter \<open>coerce_eq\<close>. \<^verbatim>\<open>assert.match(value, re)\<close> passes when \<^verbatim>\<open>re.exec(value)\<close>
  is truthy; the regular-expression engine is the parameter \<open>regexp_exec\<close>.
\<close>

record chai =
  coerce_eq :: "jsval \<Rightarrow> jsval \<Rightarrow> bool"
  regexp_exec :: "jsval \<Rightarrow> jsval \<Rightarrow> error + jsval"

definition js_loose_eq :: "chai \<Rightarrow> jsval \<Rightarrow> jsval \<Rightarrow> bool" where
  "js_loose_eq c a b =
     (if a = JNaN \<or> b = JNaN then False
      else if a = JUndefined \<or> a = JNull then b = JUndefined \<or> b = JNull
      else if b = JUndefined \<or> b = JNull then False
      else case a of
          JStr x \<Rightarrow> (case b of JStr y \<Rightarrow> x = y | _ \<Rightarrow> coerce_eq c a b)
        | JNum x \<Rightarrow> (case b of JNum y \<Rightarrow> x = y | _ \<Rightarrow> coerce_eq c a b)
        | JBool x \<Rightarrow> (case b of JBool y \<Rightarrow> x = y | _ \<Rightarrow> coerce_eq c a b)
        | JObj x \<Rightarrow> (case b of JObj y \<Rightarrow> x = y | _ \<Rightarrow> coerce_eq c a b)
        | _ \<Rightarrow> coerce_eq c a b)"

definition assert_equal :: "chai \<Rightarrow> jsval \<Rightarrow> jsval \<Rightarrow> (unit, 'w) js" where
  "assert_equal c actual expected s =
     (if js_loose_eq c actual expected then Inr () else Inl AssertionError,
      s, [CallAssertEqual actual expected])"

definition assert_match :: "chai \<Rightarrow> jsval \<Rightarrow> jsval \<Rightarrow> (unit, 'w) js" where
  "assert_match c val re s =
     (case regexp_exec c re val of
        Inl e \<Rightarrow> Inl e
      | Inr m \<Rightarrow> if truthy m then Inr () else Inl AssertionError,
      s, [CallAssertMatch val re])"

section \<open>Test cases\<close>

text \<open>
  \<^verbatim>\<open>CodeGenerationTestCase\<close> and \<^verbatim>\<open>SerializationTestCase\<close>, and the generator of a
  \<^verbatim>\<open>CodeGenerationTestSuite\<close> with the three methods the callback calls. The data
  fields are values of any kind: the source declares their types in comments only.
\<close>

record 'w CodeGenerationTestCase =
  expectedCode :: jsval
  useWorkspaceToCode :: jsval
  expectedInnerOrder :: jsval
  createBlock :: "jsval \<Rightarrow> 'w extfn"

record 'w Generator =
  init :: "jsval \<Rightarrow> 'w extfn"
  blockToCode :: "jsval \<Rightarrow> 'w extfn"
  workspaceToCode :: "jsval \<Rightarrow> 'w extfn"

record 'w SerializationTestCase =
  xml :: jsval
  expectedXml :: jsval
  assertBlockStructure :: "jsval \<Rightarrow> 'w extfn"

text \<open>The functions of \<^verbatim>\<open>Blockly.Xml\<close> that the serialization helpers call.\<close>

record 'w Xml =
  textToDom :: "jsval \<Rightarrow> 'w extfn"
  domToBlock :: "jsval \<Rightarrow> jsval \<Rightarrow> 'w extfn"
  blockToDom :: "jsval \<Rightarrow> 'w extfn"
  domToPrettyText :: "jsval \<Rightarrow> 'w extfn"

section \<open>Code generation tests\<close>

text \<open>
  Lines 109 to 120 of the callback: \<^verbatim>\<open>let code; let innerOrder;\<close> and the
  \<^verbatim>\<open>if (testCase.useWorkspaceToCode) ... else ...\<close> that assigns them. \<^verbatim>\<open>innerOrder\<close>
  stays \<^verbatim>\<open>undefined\<close> unless \<^verbatim>\<open>blockToCode\<close> returned an array.
\<close>

definition codeAndInnerOrder ::
  "'w Generator \<Rightarrow> 'w CodeGenerationTestCase \<Rightarrow> jsval \<Rightarrow> jsval \<Rightarrow> (jsval \<times> jsval, 'w) js" where
  "codeAndInnerOrder generator testCase this_workspace block =
     (if truthy (useWorkspaceToCode testCase) then
        bindJ (call (CallWorkspaceToCode this_workspace)
                 (workspaceToCode generator this_workspace))
          (\<lambda>code. ret (code, JUndefined))
      else
        bindJ (call (CallInit this_workspace) (init generator this_workspace))
          (\<lambda>_. bindJ (call (CallBlockToCode block) (blockToCode generator block))
            (\<lambda>code. if isArray code then ret (js_index code 0, js_index code 1)
                     else ret (code, JUndefined))))"

text \<open>Lines 121 and 122: the assertion chosen by the type of \<^verbatim>\<open>expectedCode\<close>.\<close>

definition assertFunc :: "chai \<Rightarrow> jsval \<Rightarrow> jsval \<Rightarrow> jsval \<Rightarrow> (unit, 'w) js" where
  "assertFunc c expected =
     (if js_typeof expected = ''string'' then assert_equal c else assert_match c)"

text \<open>
  \<^verbatim>\<open>createCodeGenerationTestFn_\<close>: the mocha callback of one test case, run with
  \<^verbatim>\<open>this.workspace\<close> as its third argument.
\<close>

definition createCodeGenerationTestFn ::
  "chai \<Rightarrow> 'w Generator \<Rightarrow> 'w CodeGenerationTestCase \<Rightarrow> jsval \<Rightarrow> (unit, 'w) js" where
  "createCodeGenerationTestFn c generator testCase this_workspace =
     bindJ (call (CallCreateBlock this_workspace) (createBlock testCase this_workspace))
       (\<lambda>block. bindJ (codeAndInnerOrder generator testCase this_workspace block)
         (\<lambda>(code, innerOrder).
            bindJ (assertFunc c (expectedCode testCase) code (expectedCode testCase))
              (\<lambda>_. if \<not> truthy (useWorkspaceToCode testCase)
                       \<and> expectedInnerOrder testCase \<noteq> JUndefined
                    then assert_equal c innerOrder (expectedInnerOrder testCase)
                    else ret ())))"

section \<open>Serialization tests\<close>

text \<open>
  \<^verbatim>\<open>createXmlToBlockTestCallback\<close> and \<^verbatim>\<open>createXmlRoundTripTestCallback\<close>, the two
  callback factories inside \<^verbatim>\<open>runSerializationTestSuite\<close>; \<^verbatim>\<open>this.workspace\<close> is the
  last argument before the world.
\<close>

definition createXmlToBlockTestCallback ::
  "'w Xml \<Rightarrow> 'w SerializationTestCase \<Rightarrow> jsval \<Rightarrow> (unit, 'w) js" where
  "createXmlToBlockTestCallback X testCase this_workspace =
     bindJ (call (CallTextToDom (xml testCase)) (textToDom X (xml testCase)))
       (\<lambda>dom. bindJ (call (CallDomToBlock dom this_workspace)
                        (domToBlock X dom this_workspace))
         (\<lambda>block. bindJ (call (CallAssertBlockStructure block)
                            (assertBlockStructure testCase block))
           (\<lambda>_. ret ())))"

definition createXmlRoundTripTestCallback ::
  "chai \<Rightarrow> 'w Xml \<Rightarrow> 'w SerializationTestCase \<Rightarrow> jsval \<Rightarrow> (unit, 'w) js" where
  "createXmlRoundTripTestCallback c X testCase this_workspace =
     bindJ (call (CallTextToDom (xml testCase)) (textToDom X (xml testCase)))
       (\<lambda>dom. bindJ (call (CallDomToBlock dom this_workspace)
                        (domToBlock X dom this_workspace))
         (\<lambda>block. bindJ (call (CallBlockToDom block) (blockToDom X block))
           (\<lambda>dom2. bindJ (call (CallDomToPrettyText dom2) (domToPrettyText X dom2))
             (\<lambda>generatedXml.
                assert_equal c generatedXml
                  (js_or (expectedXml testCase) (xml testCase))))))"

section \<open>Stubbing the identifier generator\<close>

text \<open>
  Reading a property: of an object, what the heap holds; of any other value, nothing
  (only the values \<open>JObj\<close> carry properties here). Reading a property of \<^verbatim>\<open>null\<close> or
  \<^verbatim>\<open>undefined\<close> throws; the source reads \<^verbatim>\<open>idGenerator.TEST_ONLY\<close> only behind
  \<^verbatim>\<open>idGenerator &&\<close>.
\<close>

definition js_get :: "(loc \<Rightarrow> jsval) \<Rightarrow> jsval \<Rightarrow> string \<Rightarrow> jsval" where
  "js_get h v p = (case v of JObj r \<Rightarrow> h (r, p) | _ \<Rightarrow> JUndefined)"

text \<open>The namespace object \<^verbatim>\<open>Blockly.utils\<close>.\<close>

definition Blockly_utils :: jsval where
  "Blockly_utils = JObj 0"

text \<open>
  \<^verbatim>\<open>sinon.stub(object, 'method')\<close>, as sinon implements it. It throws when the object is
  not an object, when the property does not exist (a property the heap does not hold reads
  as \<^verbatim>\<open>undefined\<close> here, and counts as missing) and when the property is a stub already.
  A property that is a function is replaced by a new stub, which returns \<^verbatim>\<open>undefined\<close>
  until it is configured. For a property with any other value sinon makes a stub and
  leaves the property alone: the stub is detached, and calls of the property never reach
  it. In both cases the default sandbox notes the property with the value it had.
  \<^verbatim>\<open>stub.returns(v)\<close> makes the stub return \<open>v\<close>. \<^verbatim>\<open>sinon.restore()\<close> writes back every
  value noted in the default sandbox and empties it; a stub made through another sandbox
  is not noted there.
\<close>

datatype stub_handle = Installed loc | Detached

definition sinon_stub :: "jsval \<Rightarrow> string \<Rightarrow> (stub_handle, 'w) js" where
  "sinon_stub obj method s =
     (case obj of
        JObj r \<Rightarrow>
          (case heap s (r, method) of
             JFun f \<Rightarrow>
               (Inr (Installed (r, method)),
                s\<lparr>heap := (heap s)((r, method) := JStub JUndefined),
                  sandbox := ((r, method), JFun f) # sandbox s\<rparr>, [])
           | JStub v \<Rightarrow> (Inl TypeError, s, [])
           | JUndefined \<Rightarrow> (Inl TypeError, s, [])
           | _ \<Rightarrow>
               (Inr Detached,
                s\<lparr>sandbox := ((r, method), heap s (r, method)) # sandbox s\<rparr>, []))
      | _ \<Rightarrow> (Inl TypeError, s, []))"

definition returns :: "stub_handle \<Rightarrow> jsval \<Rightarrow> (unit, 'w) js" where
  "returns stub v s =
     (case stub of
        Installed l \<Rightarrow> (Inr (), s\<lparr>heap := (heap s)(l := JStub v)\<rparr>, [])
      | Detached \<Rightarrow> (Inr (), s, []))"

definition sinon_restore :: "(unit, 'w) js" where
  "sinon_restore s =
     (Inr (),
      s\<lparr>heap := fold (\<lambda>(l, orig) h. h(l := orig)) (sandbox s) (heap s), sandbox := []\<rparr>,
      [])"

text \<open>
  The function passed to \<^verbatim>\<open>setup\<close> in the suite \<^verbatim>\<open>xml round-trip\<close> (lines 188 to 208)
  and the one passed to \<^verbatim>\<open>teardown\<close> (lines 210 to 212).
\<close>

definition roundTripSetup :: "(unit, 'w) js" where
  "roundTripSetup s =
     (let idGenerator = js_get (heap s) Blockly_utils ''idGenerator'' in
      if truthy idGenerator \<and> truthy (js_get (heap s) idGenerator ''TEST_ONLY'')
      then bindJ (sinon_stub (js_get (heap s) idGenerator ''TEST_ONLY'') ''genUid'')
             (\<lambda>stub. returns stub (JStr ''1'')) s
      else bindJ (sinon_stub Blockly_utils ''genUid'')
             (\<lambda>stub. returns stub (JStr ''1'')) s)"

definition roundTripTeardown :: "(unit, 'w) js" where
  "roundTripTeardown = sinon_restore"

text \<open>
  The function that answers when the toolkit asks for a new identifier. By the comment
  in the setup, \<^verbatim>\<open>genUid\<close> is a wrapper around \<^verbatim>\<open>idGenerator.TEST_ONLY.genUid\<close> where
  that exists, and is \<^verbatim>\<open>Blockly.utils.genUid\<close> itself in the older toolkit.
\<close>

definition genUid :: "'w world \<Rightarrow> jsval" where
  "genUid s =
     (let idGenerator = js_get (heap s) Blockly_utils ''idGenerator'' in
      if truthy idGenerator \<and> truthy (js_get (heap s) idGenerator ''TEST_ONLY'')
      then js_get (heap s) (js_get (heap s) idGenerator ''TEST_ONLY'') ''genUid''
      else js_get (heap s) Blockly_utils ''genUid'')"

text \<open>
  Calling a value: a stub returns what it was configured with, a function of the toolkit
  does what its code \<open>impl\<close> does, anything else is not callable.
\<close>

fun invoke :: "(nat \<Rightarrow> 'w world \<Rightarrow> jsval) \<Rightarrow> jsval \<Rightarrow> 'w world \<Rightarrow> error + jsval" where
  "invoke impl (JStub v) s = Inr v"
| "invoke impl (JFun f) s = Inr (impl f s)"
| "invoke impl v s = Inl TypeError"

section \<open>The test runner\<close>

text \<open>
  What the calls of \<^verbatim>\<open>suite\<close>, \<^verbatim>\<open>setup\<close>, \<^verbatim>\<open>teardown\<close> and \<^verbatim>\<open>test\<close> register with mocha:
  a tree of suites, each with its setup hooks, its teardown hooks and its children.
\<close>

datatype 'w mocha =
    Test "jsval \<Rightarrow> (unit, 'w) js"
  | Suite string "(unit, 'w) js list" "(unit, 'w) js list" "'w mocha list"

text \<open>
  Modelled from the spec: \<^verbatim>\<open>runTestCases\<close> of \<^verbatim>\<open>common_test_helpers.mocha.js\<close>, which is
  not among the sources. The spec calls it the generic runner that iterates the test
  cases and invokes the callbacks: one test is registered for each case, in the order of
  the cases, with the callback the factory makes for that case.
\<close>

definition runTestCases ::
  "'c list \<Rightarrow> ('c \<Rightarrow> jsval \<Rightarrow> (unit, 'w) js) \<Rightarrow> 'w mocha list" where
  "runTestCases testCases createTestCallback =
     map (\<lambda>testCase. Test (createTestCallback testCase)) testCases"

definition runSerializationTestSuite ::
  "chai \<Rightarrow> 'w Xml \<Rightarrow> 'w SerializationTestCase list \<Rightarrow> 'w mocha" where
  "runSerializationTestSuite c X testCases =
     Suite ''Serialization'' [] []
       [Suite ''xmlToBlock'' [] []
          (runTestCases testCases (createXmlToBlockTestCallback X)),
        Suite ''xml round-trip'' [roundTripSetup] [roundTripTeardown]
          (runTestCases testCases (createXmlRoundTripTestCallback c X))]"

text \<open>
  How mocha runs one test: the setup hooks of the enclosing suites, outermost first; the
  callback, unless a setup hook threw; then the teardown hooks, innermost first, in
  either case. The record keeps the world in which the callback started, the world in
  which it ended, the world after the teardown hooks, what the callback threw and what
  a hook threw.
\<close>

fun run_hooks :: "(unit, 'w) js list \<Rightarrow> (unit, 'w) js" where
  "run_hooks [] = ret ()"
| "run_hooks (h # hs) = bindJ h (\<lambda>_. run_hooks hs)"

record 'w test_run =
  entered :: "'w world option"
  left :: "'w world option"
  finished :: "'w world"
  outcome :: "error option"
  hook_error :: "error option"

definition thrown :: "error + 'a \<Rightarrow> error option" where
  "thrown r = (case r of Inl e \<Rightarrow> Some e | Inr _ \<Rightarrow> None)"

definition run_test ::
  "(unit, 'w) js list \<Rightarrow> (unit, 'w) js list \<Rightarrow> jsval \<Rightarrow> (jsval \<Rightarrow> (unit, 'w) js)
     \<Rightarrow> 'w world \<Rightarrow> 'w test_run" where
  "run_test setups teardowns this_workspace callback s =
     (case run_hooks setups s of
        (Inl e, s1, _) \<Rightarrow>
          (case run_hooks teardowns s1 of
             (_, s3, _) \<Rightarrow>
               \<lparr>entered = None, left = None, finished = s3, outcome = None,
                hook_error = Some e\<rparr>)
      | (Inr _, s1, _) \<Rightarrow>
          (case callback this_workspace s1 of
             (r2, s2, _) \<Rightarrow>
               (case run_hooks teardowns s2 of
                  (r3, s3, _) \<Rightarrow>
                    \<lparr>entered = Some s1, left = Some s2, finished = s3,
                     outcome = thrown r2, hook_error = thrown r3\<rparr>)))"

text \<open>
  A run of the tree goes through the tests in the order of their registration, each from
  the world the one before it left. What mocha does with the rest of a suite after a hook
  has thrown is not modelled: such a run is \<open>None\<close>.
\<close>

fun run_node ::
  "(unit, 'w) js list \<Rightarrow> (unit, 'w) js list \<Rightarrow> jsval \<Rightarrow> 'w mocha \<Rightarrow> 'w world
     \<Rightarrow> ('w test_run list \<times> 'w world) option"
and run_nodes ::
  "(unit, 'w) js list \<Rightarrow> (unit, 'w) js list \<Rightarrow> jsval \<Rightarrow> 'w mocha list \<Rightarrow> 'w world
     \<Rightarrow> ('w test_run list \<times> 'w world) option" where
  "run_node su td ws (Test callback) s =
     (let r = run_test su td ws callback s in
      if hook_error r = None then Some ([r], finished r) else None)"
| "run_node su td ws (Suite name su' td' children) s =
     run_nodes (su @ su') (td' @ td) ws children s"
| "run_nodes su td ws [] s = Some ([], s)"
| "run_nodes su td ws (k # ks) s =
     (case run_node su td ws k s of
        None \<Rightarrow> None
      | Some (rs1, s1) \<Rightarrow>
          (case run_nodes su td ws ks s1 of
             None \<Rightarrow> None
           | Some (rs2, s2) \<Rightarrow> Some (rs1 @ rs2, s2)))"

definition run_mocha :: "jsval \<Rightarrow> 'w mocha \<Rightarrow> 'w world \<Rightarrow> ('w test_run list \<times> 'w world) option" where
  "run_mocha ws t s = run_node [] [] ws t s"

section \<open>Notions used in the statements and proofs\<close>

text \<open>The events that are calls of the assertion library.\<close>

fun is_assertion :: "event \<Rightarrow> bool" where
  "is_assertion (CallAssertEqual a b) = True"
| "is_assertion (CallAssertMatch a b) = True"
| "is_assertion e = False"

text \<open>A computation that leaves the heap and the sandbox of sinon as it found them.\<close>

definition frame :: "('a, 'w) js \<Rightarrow> bool" where
  "frame m = (\<forall>s. heap (final (m s)) = heap s \<and> sandbox (final (m s)) = sandbox s)"

text \<open>
  The object whose \<^verbatim>\<open>genUid\<close> the setup stubs: the condition of its \<^verbatim>\<open>if\<close>, with the
  first argument of \<^verbatim>\<open>sinon.stub\<close> in each branch.
\<close>

definition genUid_target :: "(loc \<Rightarrow> jsval) \<Rightarrow> jsval" where
  "genUid_target h =
     (let idGenerator = js_get h Blockly_utils ''idGenerator'' in
      if truthy idGenerator \<and> truthy (js_get h idGenerator ''TEST_ONLY'')
      then js_get h idGenerator ''TEST_ONLY''
      else Blockly_utils)"

section \<open>A small toolkit to run the helpers on\<close>

text \<open>
  A toy collaborator for concrete runs: \<open>ext\<close> is the list of the texts of the objects
  made so far, and object \<open>n\<close> is the one with the \<open>n\<close>-th text. Parsing stores the text,
  converting copies it, printing reads it back; a block's code is its text.
\<close>

definition toy_make :: "string \<Rightarrow> string list extfn" where
  "toy_make t s = (Inr (JObj (length (ext s))), ext s @ [t])"

definition toy_copy :: "jsval \<Rightarrow> string list extfn" where
  "toy_copy v s =
     (case v of
        JObj n \<Rightarrow> if n < length (ext s) then toy_make (ext s ! n) s
                  else (Inl TypeError, ext s)
      | _ \<Rightarrow> (Inl TypeError, ext s))"

definition toy_text :: "jsval \<Rightarrow> string list world \<Rightarrow> string option" where
  "toy_text v s =
     (case v of
        JObj n \<Rightarrow> if n < length (ext s) then Some (ext s ! n) else None
      | _ \<Rightarrow> None)"

definition toy_Xml :: "string list Xml" where
  "toy_Xml =
     \<lparr>textToDom = (\<lambda>t s. case t of JStr x \<Rightarrow> toy_make x s
                              | _ \<Rightarrow> (Inl (Thrown JNull), ext s)),
      domToBlock = (\<lambda>d ws. toy_copy d),
      blockToDom = toy_copy,
      domToPrettyText = (\<lambda>d s. case toy_text d s of
                                   Some x \<Rightarrow> (Inr (JStr x), ext s)
                                 | None \<Rightarrow> (Inl TypeError, ext s))\<rparr>"

definition toy_generator :: "string list Generator" where
  "toy_generator =
     \<lparr>init = (\<lambda>ws s. (Inr JUndefined, ext s)),
      blockToCode = (\<lambda>b s. case toy_text b s of
                               Some x \<Rightarrow> (Inr (JArr [JStr x, JNum 0]), ext s)
                             | None \<Rightarrow> (Inl TypeError, ext s)),
      workspaceToCode = (\<lambda>ws s. (Inr (JStr (concat (map (\<lambda>x. x @ '';'') (ext s)))), ext s))\<rparr>"

definition toy_chai :: chai where
  "toy_chai =
     \<lparr>coerce_eq = (\<lambda>a b. False),
      regexp_exec = (\<lambda>re v. if re = JRegExp ''5'' \<and> v = JStr ''5''
                             then Inr (JArr [v]) else Inr JNull)\<rparr>"

definition toy_workspace :: jsval where
  "toy_workspace = JObj 100"

text \<open>A toolkit of the older kind: \<^verbatim>\<open>Blockly.utils.genUid\<close> is function 7, nothing is stubbed.\<close>

definition toy_world :: "string list world" where
  "toy_world =
     \<lparr>heap = (\<lambda>l. JUndefined)((0, ''genUid'') := JFun 7), sandbox = [], ext = []\<rparr>"

text \<open>The same with a stub that some other test helper left in the default sandbox.\<close>

definition toy_world_stubbed :: "string list world" where
  "toy_world_stubbed =
     \<lparr>heap = (\<lambda>l. JUndefined)((0, ''genUid'') := JFun 7, (5, ''now'') := JStub (JNum 0)),
      sandbox = [((5, ''now''), JFun 9)], ext = []\<rparr>"

text \<open>
  The toolkit of the older kind again, where a test has stubbed \<^verbatim>\<open>later\<close> of object 6
  through a sandbox of its own: the default sandbox does not note it.
\<close>

definition toy_world_foreign :: "string list world" where
  "toy_world_foreign =
     \<lparr>heap = (\<lambda>l. JUndefined)((0, ''genUid'') := JFun 7, (6, ''later'') := JStub (JNum 1)),
      sandbox = [], ext = []\<rparr>"

definition numberCase :: "string list CodeGenerationTestCase" where
  "numberCase =
     \<lparr>expectedCode = JStr ''5'', useWorkspaceToCode = JUndefined,
      expectedInnerOrder = JNum 0, createBlock = (\<lambda>ws. toy_make ''5'')\<rparr>"

definition patternCase :: "string list CodeGenerationTestCase" where
  "patternCase =
     \<lparr>expectedCode = JRegExp ''5'', useWorkspaceToCode = JBool False,
      expectedInnerOrder = JUndefined, createBlock = (\<lambda>ws. toy_make ''5'')\<rparr>"

definition workspaceCase :: "string list CodeGenerationTestCase" where
  "workspaceCase =
     \<lparr>expectedCode = JStr ''5;'', useWorkspaceToCode = JBool True,
      expectedInnerOrder = JNum 3, createBlock = (\<lambda>ws. toy_make ''5'')\<rparr>"

definition textCase :: "string list SerializationTestCase" where
  "textCase =
     \<lparr>xml = JStr ''<block><field>hi</field></block>'', expectedXml = JUndefined,
      assertBlockStructure = (\<lambda>b s. (Inr JUndefined, ext s))\<rparr>"

definition emptyExpectedCase :: "string list SerializationTestCase" where
  "emptyExpectedCase =
     \<lparr>xml = JStr ''<block></block>'', expectedXml = JStr '''',
      assertBlockStructure = (\<lambda>b s. (Inr JUndefined, ext s))\<rparr>"

definition emptyExpectedFieldCase :: "string list SerializationTestCase" where
  "emptyExpectedFieldCase =
     \<lparr>xml = JStr ''<block><field>0</field></block>'', expectedXml = JStr '''',
      assertBlockStructure = (\<lambda>b s. (Inr JUndefined, ext s))\<rparr>"

section \<open>How the callbacks and the hooks run\<close>

lemmas js_defs = bindJ_def call_def ret_def events_def result_def final_def

lemma assertFunc_run:
  "assertFunc c ec code ec s =
     (if js_typeof ec = ''string''
      then (if js_loose_eq c code ec then Inr () else Inl AssertionError, s, [CallAssertEqual code ec])
      else (case regexp_exec c ec code of Inl e \<Rightarrow> Inl e
            | Inr m \<Rightarrow> if truthy m then Inr () else Inl AssertionError, s, [CallAssertMatch code ec]))"
  by (simp add: assertFunc_def assert_equal_def assert_match_def)

lemma codegen_unfold:
  assumes "createBlock tc ws s = (Inr block, w1)"
    and "codeAndInnerOrder g tc ws block (s\<lparr>ext := w1\<rparr>) = (Inr (code, io), s2, e2)"
  shows "createCodeGenerationTestFn c g tc ws s =
     (case assertFunc c (expectedCode tc) code (expectedCode tc) s2 of
        (Inl e, s3, e3) \<Rightarrow> (Inl e, s3, CallCreateBlock ws # e2 @ e3)
      | (Inr u, s3, e3) \<Rightarrow>
          (if \<not> truthy (useWorkspaceToCode tc) \<and> expectedInnerOrder tc \<noteq> JUndefined
           then (case assert_equal c io (expectedInnerOrder tc) s3 of
                   (r, s4, e4) \<Rightarrow> (r, s4, CallCreateBlock ws # e2 @ e3 @ e4))
           else (Inr (), s3, CallCreateBlock ws # e2 @ e3)))"
  using assms
  by (simp add: createCodeGenerationTestFn_def js_defs split: prod.splits sum.splits)

lemma loose_eq_str: "js_loose_eq c (JStr x) (JStr y) = (x = y)"
  by (simp add: js_loose_eq_def)

lemma loose_eq_num: "js_loose_eq c (JNum x) (JNum y) = (x = y)"
  by (simp add: js_loose_eq_def)

lemma ws_mode_code:
  assumes "truthy (useWorkspaceToCode tc)"
  shows "codeAndInnerOrder g tc ws block s1 =
     (case workspaceToCode g ws s1 of
        (Inl e, w) \<Rightarrow> (Inl e, s1\<lparr>ext := w\<rparr>, [CallWorkspaceToCode ws])
      | (Inr code, w) \<Rightarrow> (Inr (code, JUndefined), s1\<lparr>ext := w\<rparr>, [CallWorkspaceToCode ws]))"
  using assms by (simp add: codeAndInnerOrder_def js_defs split: prod.splits sum.splits)

lemma ws_mode_events:
  "truthy (useWorkspaceToCode tc) \<Longrightarrow>
     events (codeAndInnerOrder g tc ws block s1) = [CallWorkspaceToCode ws]"
  by (simp add: ws_mode_code events_def split: prod.splits sum.splits)

lemma block_mode_events:
  "\<not> truthy (useWorkspaceToCode tc) \<Longrightarrow>
     events (codeAndInnerOrder g tc ws block s1) =
       CallInit ws # (case init g ws s1 of (Inl e, w) \<Rightarrow> [] | (Inr v, w) \<Rightarrow> [CallBlockToCode block])"
  by (simp add: codeAndInnerOrder_def js_defs split: prod.splits sum.splits)

lemma codegen_events:
  assumes "createBlock tc ws s = (Inr block, w1)"
  shows "\<exists>rest. events (createCodeGenerationTestFn c g tc ws s) =
           CallCreateBlock ws # events (codeAndInnerOrder g tc ws block (s\<lparr>ext := w1\<rparr>)) @ rest
         \<and> list_all is_assertion rest"
proof (cases "codeAndInnerOrder g tc ws block (s\<lparr>ext := w1\<rparr>)")
  case (fields r s2 e2)
  show ?thesis
  proof (cases r)
    case (Inl e)
    with fields assms show ?thesis
      by (simp add: createCodeGenerationTestFn_def js_defs)
  next
    case (Inr p)
    obtain code io where p: "p = (code, io)" by (cases p)
    show ?thesis
      unfolding codegen_unfold [OF assms fields [unfolded Inr p]] fields
      by (auto simp: events_def assertFunc_run assert_equal_def split: sum.splits)
  qed
qed

lemma block_mode_code:
  assumes "\<not> truthy (useWorkspaceToCode tc)"
    and "init g ws s1 = (Inr v, w2)"
    and "blockToCode g block (s1\<lparr>ext := w2\<rparr>) = (Inr r, w3)"
  shows "codeAndInnerOrder g tc ws block s1 =
     (Inr (if isArray r then (js_index r 0, js_index r 1) else (r, JUndefined)),
      s1\<lparr>ext := w3\<rparr>, [CallInit ws, CallBlockToCode block])"
  using assms by (simp add: codeAndInnerOrder_def js_defs)

lemma xmlToBlock_run:
  assumes "textToDom X (xml tc) s = (Inr d, w1)"
    and "domToBlock X d ws (s\<lparr>ext := w1\<rparr>) = (Inr block, w2)"
  shows "createXmlToBlockTestCallback X tc ws s =
     (case assertBlockStructure tc block (s\<lparr>ext := w2\<rparr>) of
        (Inl e, w3) \<Rightarrow> Inl e | (Inr v, w3) \<Rightarrow> Inr (),
      s\<lparr>ext := snd (assertBlockStructure tc block (s\<lparr>ext := w2\<rparr>))\<rparr>,
      [CallTextToDom (xml tc), CallDomToBlock d ws, CallAssertBlockStructure block])"
  using assms
  by (simp add: createXmlToBlockTestCallback_def js_defs split: prod.splits sum.splits)

lemma roundTrip_run:
  assumes "textToDom X (xml tc) s = (Inr d, w1)"
    and "domToBlock X d ws (s\<lparr>ext := w1\<rparr>) = (Inr block, w2)"
    and "blockToDom X block (s\<lparr>ext := w2\<rparr>) = (Inr d2, w3)"
    and "domToPrettyText X d2 (s\<lparr>ext := w3\<rparr>) = (Inr generatedXml, w4)"
  shows "createXmlRoundTripTestCallback c X tc ws s =
     (if js_loose_eq c generatedXml (js_or (expectedXml tc) (xml tc))
      then Inr () else Inl AssertionError,
      s\<lparr>ext := w4\<rparr>,
      [CallTextToDom (xml tc), CallDomToBlock d ws, CallBlockToDom block,
       CallDomToPrettyText d2,
       CallAssertEqual generatedXml (js_or (expectedXml tc) (xml tc))])"
  using assms
  by (simp add: createXmlRoundTripTestCallback_def assert_equal_def js_defs)

lemma falsy_iff:
  "(\<not> truthy v) = (v \<in> {JUndefined, JNull, JBool False, JNum 0, JNaN, JStr ''''})"
  by (cases v) auto

lemma frame_ret: "frame (ret x)"
  by (simp add: frame_def ret_def final_def)

lemma frame_call: "frame (call ev f)"
  by (simp add: frame_def call_def final_def split: prod.splits)

lemma frame_assert_equal: "frame (assert_equal c a b)"
  by (simp add: frame_def assert_equal_def final_def)

lemma frame_bind:
  assumes "frame m" and "\<And>x. frame (f x)"
  shows "frame (bindJ m f)"
  unfolding frame_def
proof
  fix s
  obtain r s1 e1 where m: "m s = (r, s1, e1)" by (cases "m s")
  have 1: "heap s1 = heap s \<and> sandbox s1 = sandbox s"
    using assms(1) m by (auto simp: frame_def final_def dest: spec [of _ s])
  show "heap (final (bindJ m f s)) = heap s \<and> sandbox (final (bindJ m f s)) = sandbox s"
  proof (cases r)
    case (Inl e)
    then show ?thesis using m 1 by (simp add: bindJ_def final_def)
  next
    case (Inr x)
    obtain r2 s2 e2 where f: "f x s1 = (r2, s2, e2)" by (cases "f x s1")
    have "heap s2 = heap s1 \<and> sandbox s2 = sandbox s1"
      using assms(2) [of x] f by (auto simp: frame_def final_def dest: spec [of _ s1])
    then show ?thesis using m Inr f 1 by (simp add: bindJ_def final_def)
  qed
qed

lemma frame_xmlToBlock: "frame (createXmlToBlockTestCallback X tc ws)"
  unfolding createXmlToBlockTestCallback_def
  by (intro frame_bind frame_call frame_ret)

lemma frame_roundTrip: "frame (createXmlRoundTripTestCallback c X tc ws)"
  unfolding createXmlRoundTripTestCallback_def
  by (intro frame_bind frame_call frame_assert_equal)

lemma setup_target:
  "roundTripSetup s =
     bindJ (sinon_stub (genUid_target (heap s)) ''genUid'') (\<lambda>stub. returns stub (JStr ''1'')) s"
  by (simp add: roundTripSetup_def genUid_target_def Let_def)

lemma genUid_target_eq: "genUid s = js_get (heap s) (genUid_target (heap s)) ''genUid''"
  by (simp add: genUid_def genUid_target_def Let_def)

lemma genUid_target_upd: "genUid_target (h((r, ''genUid'') := v)) = genUid_target h"
  by (simp add: genUid_target_def js_get_def Blockly_utils_def Let_def split: jsval.splits)

lemma genUid_fun_obj:
  assumes "genUid s = JFun f"
  obtains r where "genUid_target (heap s) = JObj r" and "heap s (r, ''genUid'') = JFun f"
  using assms unfolding genUid_target_eq
  by (cases "genUid_target (heap s)") (auto simp: js_get_def)

lemma setup_ok:
  assumes "genUid_target (heap s) = JObj r" and "heap s (r, ''genUid'') = JFun f"
  shows "roundTripSetup s =
     (Inr (), s\<lparr>heap := (heap s)((r, ''genUid'') := JStub (JStr ''1'')),
               sandbox := ((r, ''genUid''), JFun f) # sandbox s\<rparr>, [])"
  using assms by (simp add: setup_target sinon_stub_def returns_def bindJ_def)

lemma fold_restore:
  "distinct (map fst xs) \<Longrightarrow>
     fold (\<lambda>(l, orig) h. h(l := orig)) xs h l =
       (case map_of xs l of Some orig \<Rightarrow> orig | None \<Rightarrow> h l)"
proof (induction xs arbitrary: h)
  case Nil
  then show ?case by simp
next
  case (Cons x xs)
  obtain k v where x: "x = (k, v)" by (cases x)
  have "map_of xs k = None"
    using Cons.prems x by (simp add: map_of_eq_None_iff)
  then show ?case
    using Cons x by (auto split: option.splits)
qed

lemma genUid_heap: "heap a = heap b \<Longrightarrow> genUid a = genUid b"
  by (simp add: genUid_target_eq)

lemma setup_cases:
  "(\<exists>e. roundTripSetup s = (Inl e, s, []))
   \<or> (\<exists>r f. genUid_target (heap s) = JObj r \<and> heap s (r, ''genUid'') = JFun f
        \<and> roundTripSetup s =
            (Inr (), s\<lparr>heap := (heap s)((r, ''genUid'') := JStub (JStr ''1'')),
                      sandbox := ((r, ''genUid''), JFun f) # sandbox s\<rparr>, []))
   \<or> (\<exists>r. genUid_target (heap s) = JObj r \<and> (\<forall>f. heap s (r, ''genUid'') \<noteq> JFun f)
        \<and> roundTripSetup s =
            (Inr (), s\<lparr>sandbox := ((r, ''genUid''), heap s (r, ''genUid'')) # sandbox s\<rparr>, []))"
  by (auto simp: setup_target sinon_stub_def returns_def bindJ_def split: jsval.splits)

lemma run_hooks_setup_ok:
  "roundTripSetup s = (Inr (), s1, []) \<Longrightarrow> run_hooks [roundTripSetup] s = (Inr (), s1, [])"
  by (simp add: bindJ_def ret_def)

lemma run_hooks_setup_fail:
  "roundTripSetup s = (Inl e, s1, []) \<Longrightarrow> run_hooks [roundTripSetup] s = (Inl e, s1, [])"
  by (simp add: bindJ_def ret_def)

lemma run_hooks_teardown:
  "run_hooks [roundTripTeardown] s =
     (Inr (), s\<lparr>heap := fold (\<lambda>(l, orig) h. h(l := orig)) (sandbox s) (heap s), sandbox := []\<rparr>, [])"
  by (simp add: roundTripTeardown_def sinon_restore_def bindJ_def ret_def)

lemma frameD:
  assumes "frame m" and "m s = (r, s', e)"
  shows "heap s' = heap s" and "sandbox s' = sandbox s"
  using assms by (auto simp: frame_def final_def dest: spec [of _ s])

lemma roundTrip_lifecycle:
  assumes sb: "sandbox s = []" and uid: "genUid s = JFun f" and fr: "frame (cb ws)"
  shows "\<exists>s1 s2. entered (run_test [roundTripSetup] [roundTripTeardown] ws cb s) = Some s1
           \<and> left (run_test [roundTripSetup] [roundTripTeardown] ws cb s) = Some s2
           \<and> genUid s1 = JStub (JStr ''1'') \<and> genUid s2 = JStub (JStr ''1'')
           \<and> hook_error (run_test [roundTripSetup] [roundTripTeardown] ws cb s) = None
           \<and> heap (finished (run_test [roundTripSetup] [roundTripTeardown] ws cb s)) = heap s
           \<and> sandbox (finished (run_test [roundTripSetup] [roundTripTeardown] ws cb s)) = []"
proof -
  obtain r where tg: "genUid_target (heap s) = JObj r" and hf: "heap s (r, ''genUid'') = JFun f"
    using uid by (rule genUid_fun_obj)
  let ?s1 = "s\<lparr>heap := (heap s)((r, ''genUid'') := JStub (JStr ''1'')),
               sandbox := ((r, ''genUid''), JFun f) # sandbox s\<rparr>"
  have su: "run_hooks [roundTripSetup] s = (Inr (), ?s1, [])"
    by (rule run_hooks_setup_ok) (rule setup_ok [OF tg hf])
  obtain r2 s2 e2 where cb: "cb ws ?s1 = (r2, s2, e2)" by (cases "cb ws ?s1")
  have h2: "heap s2 = heap ?s1" and b2: "sandbox s2 = sandbox ?s1"
    using frameD [OF fr cb] by simp_all
  have g1: "genUid ?s1 = JStub (JStr ''1'')"
    by (simp add: genUid_target_eq genUid_target_upd tg js_get_def)
  have g2: "genUid s2 = JStub (JStr ''1'')"
    using genUid_heap [OF h2] g1 by simp
  have restored: "(heap s)((r, ''genUid'') := JFun f) = heap s"
    using hf by (simp add: fun_upd_idem)
  have rt: "run_test [roundTripSetup] [roundTripTeardown] ws cb s =
      \<lparr>entered = Some ?s1, left = Some s2,
       finished = s2\<lparr>heap := fold (\<lambda>(l, orig) h. h(l := orig)) (sandbox s2) (heap s2),
                      sandbox := []\<rparr>,
       outcome = thrown r2, hook_error = None\<rparr>"
    by (simp add: run_test_def su cb run_hooks_teardown thrown_def del: run_hooks.simps)
  show ?thesis
    using g1 g2 restored by (simp add: rt h2 b2 sb)
qed

lemma xmlToBlock_lifecycle:
  assumes fr: "frame (cb ws)"
  shows "entered (run_test [] [] ws cb s) = Some s
       \<and> left (run_test [] [] ws cb s) = Some (final (cb ws s))
       \<and> finished (run_test [] [] ws cb s) = final (cb ws s)
       \<and> hook_error (run_test [] [] ws cb s) = None
       \<and> heap (final (cb ws s)) = heap s \<and> sandbox (final (cb ws s)) = sandbox s"
proof -
  obtain r2 s2 e2 where cb: "cb ws s = (r2, s2, e2)" by (cases "cb ws s")
  show ?thesis
    using frameD [OF fr cb]
    by (simp add: run_test_def ret_def cb final_def thrown_def)
qed

lemma run_nodes_tests:
  assumes step: "\<And>tc s. Inv s \<Longrightarrow>
      hook_error (run_test su td ws (mk tc) s) = None
      \<and> Inv (finished (run_test su td ws (mk tc) s))"
    and "Inv s"
  shows "\<exists>runs s'. run_nodes su td ws (runTestCases cases mk) s = Some (runs, s') \<and> Inv s'
      \<and> list_all2 (\<lambda>tc r. \<exists>s0. Inv s0 \<and> r = run_test su td ws (mk tc) s0) cases runs"
  using assms(2)
proof (induction cases arbitrary: s)
  case Nil
  then show ?case by (simp add: runTestCases_def)
next
  case (Cons tc cases)
  let ?r = "run_test su td ws (mk tc) s"
  have ok: "hook_error ?r = None" and inv: "Inv (finished ?r)"
    using step [OF Cons.prems] by simp_all
  obtain runs s' where rest: "run_nodes su td ws (runTestCases cases mk) (finished ?r) = Some (runs, s')"
    and inv': "Inv s'"
    and all: "list_all2 (\<lambda>tc r. \<exists>s0. Inv s0 \<and> r = run_test su td ws (mk tc) s0) cases runs"
    using Cons.IH [OF inv] by blast
  have "run_nodes su td ws (runTestCases (tc # cases) mk) s = Some (?r # runs, s')"
    using ok rest by (simp add: runTestCases_def Let_def)
  moreover have "list_all2 (\<lambda>tc r. \<exists>s0. Inv s0 \<and> r = run_test su td ws (mk tc) s0)
      (tc # cases) (?r # runs)"
    using all Cons.prems by auto
  ultimately show ?case using inv' by blast
qed

lemma codegen_code_error:
  assumes "createBlock tc ws s = (Inr block, w1)"
    and "codeAndInnerOrder g tc ws block (s\<lparr>ext := w1\<rparr>) = (Inl e, s2, e2)"
  shows "createCodeGenerationTestFn c g tc ws s = (Inl e, s2, CallCreateBlock ws # e2)"
  using assms by (simp add: createCodeGenerationTestFn_def js_defs)

lemma block_mode_init_error:
  assumes "\<not> truthy (useWorkspaceToCode tc)" and "init g ws s1 = (Inl e, w2)"
  shows "codeAndInnerOrder g tc ws block s1 = (Inl e, s1\<lparr>ext := w2\<rparr>, [CallInit ws])"
  using assms by (simp add: codeAndInnerOrder_def js_defs)

lemma block_mode_code_error:
  assumes "\<not> truthy (useWorkspaceToCode tc)"
    and "init g ws s1 = (Inr v, w2)"
    and "blockToCode g block (s1\<lparr>ext := w2\<rparr>) = (Inl e, w3)"
  shows "codeAndInnerOrder g tc ws block s1 =
     (Inl e, s1\<lparr>ext := w3\<rparr>, [CallInit ws, CallBlockToCode block])"
  using assms by (simp add: codeAndInnerOrder_def js_defs)

lemma codegen_after_code:
  assumes "createBlock tc ws s = (Inr block, w1)"
    and "codeAndInnerOrder g tc ws block (s\<lparr>ext := w1\<rparr>) = (Inr (code, io), s2, e2)"
  shows "createCodeGenerationTestFn c g tc ws s =
     (let A = (if js_typeof (expectedCode tc) = ''string''
               then assert_equal c code (expectedCode tc) s2
               else assert_match c code (expectedCode tc) s2)
      in if result A = Inr () \<and> \<not> truthy (useWorkspaceToCode tc)
            \<and> expectedInnerOrder tc \<noteq> JUndefined
         then (result (assert_equal c io (expectedInnerOrder tc) s2), s2,
               CallCreateBlock ws # e2 @ events A @ [CallAssertEqual io (expectedInnerOrder tc)])
         else (result A, s2, CallCreateBlock ws # e2 @ events A))"
  unfolding codegen_unfold [OF assms] assertFunc_def
  by (auto simp: Let_def assert_equal_def assert_match_def result_def events_def
      split: sum.splits)

lemma setup_shape:
  "(\<exists>e. roundTripSetup s = (Inl e, s, []))
   \<or> (\<exists>l x. roundTripSetup s =
          (Inr (), s\<lparr>heap := (heap s)(l := x), sandbox := (l, heap s l) # sandbox s\<rparr>, [])
        \<and> (x = heap s l \<or> x = JStub (JStr ''1'') \<and> (\<exists>f. heap s l = JFun f)))"
  using setup_cases [of s]
proof (elim disjE exE conjE)
  fix e assume "roundTripSetup s = (Inl e, s, [])"
  then show ?thesis by blast
next
  fix r f
  assume hf: "heap s (r, ''genUid'') = JFun f"
    and su: "roundTripSetup s =
       (Inr (), s\<lparr>heap := (heap s)((r, ''genUid'') := JStub (JStr ''1'')),
                 sandbox := ((r, ''genUid''), JFun f) # sandbox s\<rparr>, [])"
  have "roundTripSetup s =
       (Inr (), s\<lparr>heap := (heap s)((r, ''genUid'') := JStub (JStr ''1'')),
                 sandbox := ((r, ''genUid''), heap s (r, ''genUid'')) # sandbox s\<rparr>, [])"
    using su hf by simp
  then show ?thesis using hf by blast
next
  fix r
  assume su: "roundTripSetup s =
       (Inr (), s\<lparr>sandbox := ((r, ''genUid''), heap s (r, ''genUid'')) # sandbox s\<rparr>, [])"
  have "roundTripSetup s =
       (Inr (), s\<lparr>heap := (heap s)((r, ''genUid'') := heap s (r, ''genUid'')),
                 sandbox := ((r, ''genUid''), heap s (r, ''genUid'')) # sandbox s\<rparr>, [])"
    using su by simp
  then show ?thesis by blast
qed

lemma roundTrip_run_test:
  assumes fr: "frame (cb ws)"
  shows "(\<exists>e. roundTripSetup s = (Inl e, s, [])
            \<and> entered (run_test [roundTripSetup] [roundTripTeardown] ws cb s) = None
            \<and> finished (run_test [roundTripSetup] [roundTripTeardown] ws cb s) =
                s\<lparr>heap := fold (\<lambda>(l, orig) h. h(l := orig)) (sandbox s) (heap s),
                  sandbox := []\<rparr>)
       \<or> (\<exists>s1 s2. roundTripSetup s = (Inr (), s1, [])
            \<and> entered (run_test [roundTripSetup] [roundTripTeardown] ws cb s) = Some s1
            \<and> left (run_test [roundTripSetup] [roundTripTeardown] ws cb s) = Some s2
            \<and> heap s2 = heap s1
            \<and> finished (run_test [roundTripSetup] [roundTripTeardown] ws cb s) =
                s2\<lparr>heap := fold (\<lambda>(l, orig) h. h(l := orig)) (sandbox s1) (heap s1),
                   sandbox := []\<rparr>)"
proof -
  from setup_shape [of s] consider
    e where "roundTripSetup s = (Inl e, s, [])"
    | s1 where "roundTripSetup s = (Inr (), s1, [])"
    by blast
  then show ?thesis
  proof cases
    case 1
    then show ?thesis
      by (simp add: run_test_def run_hooks_setup_fail [OF 1] run_hooks_teardown
          del: run_hooks.simps)
  next
    case 2
    obtain r2 s2 e2 where cb: "cb ws s1 = (r2, s2, e2)" by (cases "cb ws s1")
    have h2: "heap s2 = heap s1" and b2: "sandbox s2 = sandbox s1"
      using frameD [OF fr cb] by simp_all
    show ?thesis
      using 2 h2 b2
      by (simp add: run_test_def run_hooks_setup_ok [OF 2] cb run_hooks_teardown thrown_def
          del: run_hooks.simps)
  qed
qed

lemma roundTrip_lifecycle_heap:
  assumes fr: "frame (cb ws)" and d: "distinct (map fst (sandbox s))"
  shows "sandbox (finished (run_test [roundTripSetup] [roundTripTeardown] ws cb s)) = []
       \<and> heap (finished (run_test [roundTripSetup] [roundTripTeardown] ws cb s)) l =
           (case map_of (sandbox s) l of Some orig \<Rightarrow> orig | None \<Rightarrow> heap s l)"
  using roundTrip_run_test [where cb = cb and ws = ws and s = s, OF fr]
proof (elim disjE exE conjE)
  fix e
  assume "finished (run_test [roundTripSetup] [roundTripTeardown] ws cb s) =
                s\<lparr>heap := fold (\<lambda>(l, orig) h. h(l := orig)) (sandbox s) (heap s),
                  sandbox := []\<rparr>"
  then show ?thesis by (simp add: fold_restore [OF d])
next
  fix s1 s2
  assume su: "roundTripSetup s = (Inr (), s1, [])"
    and fin: "finished (run_test [roundTripSetup] [roundTripTeardown] ws cb s) =
                s2\<lparr>heap := fold (\<lambda>(l, orig) h. h(l := orig)) (sandbox s1) (heap s1),
                   sandbox := []\<rparr>"
  from setup_shape [of s] su obtain l0 x where
    s1: "s1 = s\<lparr>heap := (heap s)(l0 := x), sandbox := (l0, heap s l0) # sandbox s\<rparr>"
    by auto
  have "fold (\<lambda>(l, orig) h. h(l := orig)) (sandbox s1) (heap s1) =
      fold (\<lambda>(l, orig) h. h(l := orig)) (sandbox s) (heap s)"
    by (simp add: s1)
  then show ?thesis
    by (simp add: fin fold_restore [OF d])
qed

lemma roundTrip_stubbed_inside:
  assumes uid: "genUid s = JFun f" and fr: "frame (cb ws)"
  shows "\<exists>s1 s2. entered (run_test [roundTripSetup] [roundTripTeardown] ws cb s) = Some s1
           \<and> left (run_test [roundTripSetup] [roundTripTeardown] ws cb s) = Some s2
           \<and> genUid s1 = JStub (JStr ''1'') \<and> genUid s2 = JStub (JStr ''1'')"
proof -
  obtain r where tg: "genUid_target (heap s) = JObj r" and hf: "heap s (r, ''genUid'') = JFun f"
    using uid by (rule genUid_fun_obj)
  let ?s1 = "s\<lparr>heap := (heap s)((r, ''genUid'') := JStub (JStr ''1'')),
               sandbox := ((r, ''genUid''), JFun f) # sandbox s\<rparr>"
  have su: "roundTripSetup s = (Inr (), ?s1, [])"
    by (rule setup_ok [OF tg hf])
  have g1: "genUid ?s1 = JStub (JStr ''1'')"
    by (simp add: genUid_target_eq genUid_target_upd tg js_get_def)
  from roundTrip_run_test [where cb = cb and ws = ws and s = s, OF fr] su obtain s2 where
    "entered (run_test [roundTripSetup] [roundTripTeardown] ws cb s) = Some ?s1"
    "left (run_test [roundTripSetup] [roundTripTeardown] ws cb s) = Some s2"
    "heap s2 = heap ?s1"
    by auto
  then show ?thesis
    using g1 genUid_heap [of s2 ?s1] by auto
qed

lemmas toy_defs = toy_make_def toy_copy_def toy_text_def toy_Xml_def toy_generator_def
  toy_chai_def toy_world_def numberCase_def patternCase_def workspaceCase_def
  textCase_def

lemma number_block:
  "createBlock numberCase toy_workspace toy_world = (Inr (JObj 0), [''5''])"
  by (simp add: toy_defs)

lemma number_code:
  "codeAndInnerOrder toy_generator numberCase toy_workspace (JObj 0) (toy_world\<lparr>ext := [''5'']\<rparr>)
     = (Inr (JStr ''5'', JNum 0), toy_world\<lparr>ext := [''5'']\<rparr>,
        [CallInit toy_workspace, CallBlockToCode (JObj 0)])"
  by (simp add: codeAndInnerOrder_def js_defs toy_defs)

lemma pattern_block:
  "createBlock patternCase toy_workspace toy_world = (Inr (JObj 0), [''5''])"
  by (simp add: toy_defs)

lemma pattern_code:
  "codeAndInnerOrder toy_generator patternCase toy_workspace (JObj 0) (toy_world\<lparr>ext := [''5'']\<rparr>)
     = (Inr (JStr ''5'', JNum 0), toy_world\<lparr>ext := [''5'']\<rparr>,
        [CallInit toy_workspace, CallBlockToCode (JObj 0)])"
  by (simp add: codeAndInnerOrder_def js_defs toy_defs)

lemma workspace_block:
  "createBlock workspaceCase toy_workspace toy_world = (Inr (JObj 0), [''5''])"
  by (simp add: toy_defs)

lemma workspace_code:
  "codeAndInnerOrder toy_generator workspaceCase toy_workspace (JObj 0)
       (toy_world\<lparr>ext := [''5'']\<rparr>)
     = (Inr (JStr ''5;'', JUndefined), toy_world\<lparr>ext := [''5'']\<rparr>,
        [CallWorkspaceToCode toy_workspace])"
  by (simp add: codeAndInnerOrder_def js_defs toy_defs)

lemma toy_parse: "textToDom toy_Xml (JStr x) toy_world = (Inr (JObj 0), [x])"
  by (simp add: toy_defs)

lemma toy_block:
  "domToBlock toy_Xml (JObj 0) ws (toy_world\<lparr>ext := [x]\<rparr>) = (Inr (JObj 1), [x, x])"
  by (simp add: toy_defs)

lemma toy_dom:
  "blockToDom toy_Xml (JObj 1) (toy_world\<lparr>ext := [x, x]\<rparr>) = (Inr (JObj 2), [x, x, x])"
  by (simp add: toy_defs)

lemma toy_print:
  "domToPrettyText toy_Xml (JObj 2) (toy_world\<lparr>ext := [x, x, x]\<rparr>) = (Inr (JStr x), [x, x, x])"
  by (simp add: toy_defs)

section \<open>Properties of the helpers\<close>

text \<open>
  Claim C1, as amended. When the four calls into \<^verbatim>\<open>Blockly.Xml\<close> return, the round-trip
  callback has made exactly these calls, in this order: it parses the case's \<^verbatim>\<open>xml\<close>
  into a DOM, converts the DOM to a block of the test's workspace, converts the block
  back to a DOM, prints it as pretty text, and asserts with \<^verbatim>\<open>assert.equal\<close> that the
  text equals \<^verbatim>\<open>expectedXml\<close> when that field is truthy (a non-empty string), and equals
  \<^verbatim>\<open>xml\<close> otherwise (the field unset, or the empty string or another falsy value).
  Between two strings the assertion passes exactly when they are the same string.
\<close>

theorem roundTrip_asserts_expected_or_xml:
  fixes c X tc ws s R
  defines "R \<equiv> createXmlRoundTripTestCallback c X tc ws s"
  assumes "textToDom X (xml tc) s = (Inr d, w1)"
    and "domToBlock X d ws (s\<lparr>ext := w1\<rparr>) = (Inr block, w2)"
    and "blockToDom X block (s\<lparr>ext := w2\<rparr>) = (Inr d2, w3)"
    and "domToPrettyText X d2 (s\<lparr>ext := w3\<rparr>) = (Inr generatedXml, w4)"
  shows "events R =
           [CallTextToDom (xml tc), CallDomToBlock d ws, CallBlockToDom block,
            CallDomToPrettyText d2,
            CallAssertEqual generatedXml
              (if truthy (expectedXml tc) then expectedXml tc else xml tc)]
       \<and> (\<forall>x y. generatedXml = JStr x
               \<and> (if truthy (expectedXml tc) then expectedXml tc else xml tc) = JStr y \<longrightarrow>
             (result R = Inr ()) = (x = y))"
  unfolding R_def roundTrip_run [OF assms(2-5)]
  by (auto simp: events_def result_def js_or_def loose_eq_str)

text \<open>
  The example of the specification, on the toy toolkit: \<^verbatim>\<open>expectedXml\<close> unset, and the
  printed text is compared with the input.
\<close>

theorem roundTrip_asserts_expected_or_xml_witness:
  "textToDom toy_Xml (xml textCase) toy_world
     = (Inr (JObj 0), [''<block><field>hi</field></block>''])
   \<and> domToBlock toy_Xml (JObj 0) toy_workspace
       (toy_world\<lparr>ext := [''<block><field>hi</field></block>'']\<rparr>)
     = (Inr (JObj 1), [''<block><field>hi</field></block>'', ''<block><field>hi</field></block>''])
   \<and> events (createXmlRoundTripTestCallback toy_chai toy_Xml textCase toy_workspace toy_world)
     = [CallTextToDom (JStr ''<block><field>hi</field></block>''),
        CallDomToBlock (JObj 0) toy_workspace, CallBlockToDom (JObj 1),
        CallDomToPrettyText (JObj 2),
        CallAssertEqual (JStr ''<block><field>hi</field></block>'')
          (JStr ''<block><field>hi</field></block>'')]
   \<and> result (createXmlRoundTripTestCallback toy_chai toy_Xml textCase toy_workspace toy_world)
     = Inr ()"
proof -
  have x: "xml textCase = JStr ''<block><field>hi</field></block>''"
    and e: "expectedXml textCase = JUndefined"
    by (simp_all add: textCase_def)
  note run = roundTrip_asserts_expected_or_xml [of toy_Xml textCase toy_world _ _ toy_workspace _ _ _ _ _ _ toy_chai,
      unfolded x, OF toy_parse toy_block toy_dom toy_print]
  show ?thesis
    using run by (simp add: x e toy_parse toy_block)
qed

text \<open>
  Claim C1 as the specification words it fails for a case whose \<^verbatim>\<open>expectedXml\<close> is set
  to the empty string: the field is not \<^verbatim>\<open>undefined\<close>, yet the assertion compares the
  printed text with \<^verbatim>\<open>xml\<close>, not with \<^verbatim>\<open>expectedXml\<close>, and the test passes.
\<close>

theorem roundTrip_empty_expectedXml_counterexample:
  "expectedXml emptyExpectedCase \<noteq> JUndefined
   \<and> last (events (createXmlRoundTripTestCallback toy_chai toy_Xml emptyExpectedCase
                    toy_workspace toy_world))
       = CallAssertEqual (JStr ''<block></block>'') (xml emptyExpectedCase)
   \<and> last (events (createXmlRoundTripTestCallback toy_chai toy_Xml emptyExpectedCase
                    toy_workspace toy_world))
       \<noteq> CallAssertEqual (JStr ''<block></block>'') (expectedXml emptyExpectedCase)
   \<and> result (createXmlRoundTripTestCallback toy_chai toy_Xml emptyExpectedCase
                toy_workspace toy_world) = Inr ()"
proof -
  have x: "xml emptyExpectedCase = JStr ''<block></block>''"
    and e: "expectedXml emptyExpectedCase = JStr ''''"
    by (simp_all add: emptyExpectedCase_def)
  note run = roundTrip_run [of toy_Xml emptyExpectedCase toy_world _ _ toy_workspace _ _ _ _ _ _
      toy_chai, unfolded x, OF toy_parse toy_block toy_dom toy_print]
  show ?thesis
    by (simp add: run x e events_def result_def js_or_def loose_eq_str)
qed

text \<open>
  Claim C2. Once the block is created and the code computed, the next call of the
  code-generation callback is \<^verbatim>\<open>assert.equal(code, expectedCode)\<close> when
  \<^verbatim>\<open>typeof expectedCode\<close> is \<^verbatim>\<open>'string'\<close>, and \<^verbatim>\<open>assert.match(code, expectedCode)\<close>
  otherwise. With a string \<^verbatim>\<open>expectedCode\<close> and a string \<^verbatim>\<open>code\<close> the test fails with an
  assertion error, right there, when the two strings differ, and passes when they are
  equal and no inner order is to be checked; with a pattern it fails when \<^verbatim>\<open>exec\<close>
  finds no match, and passes when it finds one and no inner order is to be checked.
\<close>

theorem codegen_assertion_by_type:
  fixes c g tc ws s R
  defines "R \<equiv> createCodeGenerationTestFn c g tc ws s"
  assumes "createBlock tc ws s = (Inr block, w1)"
    and "codeAndInnerOrder g tc ws block (s\<lparr>ext := w1\<rparr>) = (Inr (code, io), s2, e2)"
  shows "(js_typeof (expectedCode tc) = ''string'' \<longrightarrow>
            take (length e2 + 2) (events R) = CallCreateBlock ws # e2 @ [CallAssertEqual code (expectedCode tc)]
            \<and> (\<forall>x y. code = JStr x \<and> expectedCode tc = JStr y \<and> x \<noteq> y \<longrightarrow>
                  result R = Inl AssertionError
                  \<and> events R = CallCreateBlock ws # e2 @ [CallAssertEqual code (expectedCode tc)])
            \<and> (\<forall>x. code = JStr x \<and> expectedCode tc = JStr x
                    \<and> (truthy (useWorkspaceToCode tc) \<or> expectedInnerOrder tc = JUndefined) \<longrightarrow>
                  result R = Inr ()))
       \<and> (js_typeof (expectedCode tc) \<noteq> ''string'' \<longrightarrow>
            take (length e2 + 2) (events R) = CallCreateBlock ws # e2 @ [CallAssertMatch code (expectedCode tc)]
            \<and> (\<forall>m. regexp_exec c (expectedCode tc) code = Inr m \<and> \<not> truthy m \<longrightarrow>
                  result R = Inl AssertionError)
            \<and> (\<forall>m. regexp_exec c (expectedCode tc) code = Inr m \<and> truthy m
                    \<and> (truthy (useWorkspaceToCode tc) \<or> expectedInnerOrder tc = JUndefined) \<longrightarrow>
                  result R = Inr ()))"
  unfolding R_def codegen_unfold [OF assms(2,3)] assertFunc_run
  by (auto simp: events_def result_def assert_equal_def loose_eq_str split: sum.splits)

text \<open>A case with a string and a case with a pattern, on the toy toolkit.\<close>

theorem codegen_assertion_by_type_witness:
  "createBlock numberCase toy_workspace toy_world = (Inr (JObj 0), [''5''])
   \<and> js_typeof (expectedCode numberCase) = ''string''
   \<and> take 4 (events (createCodeGenerationTestFn toy_chai toy_generator numberCase
                      toy_workspace toy_world))
       = [CallCreateBlock toy_workspace, CallInit toy_workspace, CallBlockToCode (JObj 0),
          CallAssertEqual (JStr ''5'') (JStr ''5'')]
   \<and> createBlock patternCase toy_workspace toy_world = (Inr (JObj 0), [''5''])
   \<and> js_typeof (expectedCode patternCase) \<noteq> ''string''
   \<and> take 4 (events (createCodeGenerationTestFn toy_chai toy_generator patternCase
                      toy_workspace toy_world))
       = [CallCreateBlock toy_workspace, CallInit toy_workspace, CallBlockToCode (JObj 0),
          CallAssertMatch (JStr ''5'') (JRegExp ''5'')]
   \<and> result (createCodeGenerationTestFn toy_chai toy_generator patternCase
                toy_workspace toy_world) = Inr ()"
proof -
  have n: "js_typeof (expectedCode numberCase) = ''string''"
    and p: "js_typeof (expectedCode patternCase) \<noteq> ''string''"
    and e: "expectedCode numberCase = JStr ''5''" "expectedCode patternCase = JRegExp ''5''"
    and m: "regexp_exec toy_chai (JRegExp ''5'') (JStr ''5'') = Inr (JArr [JStr ''5''])"
    and o: "expectedInnerOrder patternCase = JUndefined"
    by (simp_all add: toy_defs)
  show ?thesis
    using codegen_assertion_by_type [OF number_block number_code, of toy_chai]
      codegen_assertion_by_type [OF pattern_block pattern_code, of toy_chai]
    by (simp add: number_block pattern_block n p e m o eval_nat_numeral)
qed

text \<open>
  Claim C3. Start the suite that \<^verbatim>\<open>runSerializationTestSuite\<close> registers in a world
  where sinon's default sandbox is empty and the identifier function is a function \<open>f\<close>
  of the toolkit. Then the run goes through, no hook throws, and the runs are those of
  the \<^verbatim>\<open>xmlToBlock\<close> tests followed by those of the \<^verbatim>\<open>xml round-trip\<close> tests, one for
  each case in the order of the cases. Every round-trip test starts its lifecycle with
  \<open>f\<close> in place; its callback starts and ends with the identifier function being the
  stub that returns \<^verbatim>\<open>'1'\<close> at every call; after its teardown \<open>f\<close> is in place again.
  Every \<^verbatim>\<open>xmlToBlock\<close> test starts, ends and is left with \<open>f\<close> in place, and so is the
  world after the whole run.
\<close>

theorem genUid_stubbed_around_each_roundTrip:
  assumes "sandbox s = []" and "genUid s = JFun f"
  shows "\<exists>runs1 runs2 s'.
      run_mocha ws (runSerializationTestSuite c X cases) s = Some (runs1 @ runs2, s')
    \<and> list_all2 (\<lambda>tc r. \<exists>s0 s1 s2.
          r = run_test [] [] ws (createXmlToBlockTestCallback X tc) s0
        \<and> entered r = Some s1 \<and> left r = Some s2
        \<and> genUid s1 = JFun f \<and> genUid s2 = JFun f \<and> genUid (finished r) = JFun f)
        cases runs1
    \<and> list_all2 (\<lambda>tc r. \<exists>s0 s1 s2.
          r = run_test [roundTripSetup] [roundTripTeardown] ws
                (createXmlRoundTripTestCallback c X tc) s0
        \<and> genUid s0 = JFun f
        \<and> entered r = Some s1 \<and> left r = Some s2
        \<and> genUid s1 = JStub (JStr ''1'') \<and> genUid s2 = JStub (JStr ''1'')
        \<and> (\<forall>impl t. invoke impl (genUid s1) t = Inr (JStr ''1''))
        \<and> genUid (finished r) = JFun f)
        cases runs2
    \<and> genUid s' = JFun f"
proof -
  define Inv :: "'a world \<Rightarrow> bool" where "Inv = (\<lambda>t. sandbox t = [] \<and> heap t = heap s)"
  have inv0: "Inv s" using assms(1) by (simp add: Inv_def)
  have uid: "genUid t = JFun f" if "Inv t" for t
    using that assms(2) genUid_heap [of t s] by (simp add: Inv_def)
  have step1: "hook_error (run_test [] [] ws (createXmlToBlockTestCallback X tc) t) = None
      \<and> Inv (finished (run_test [] [] ws (createXmlToBlockTestCallback X tc) t))"
    if "Inv t" for tc t
    using that xmlToBlock_lifecycle [where cb = "createXmlToBlockTestCallback X tc" and ws = ws and s = t,
        OF frame_xmlToBlock]
    by (simp add: Inv_def)
  have step2: "hook_error (run_test [roundTripSetup] [roundTripTeardown] ws
                  (createXmlRoundTripTestCallback c X tc) t) = None
      \<and> Inv (finished (run_test [roundTripSetup] [roundTripTeardown] ws
                  (createXmlRoundTripTestCallback c X tc) t))"
    if "Inv t" for tc t
  proof -
    have "sandbox t = []" "genUid t = JFun f" "heap t = heap s"
      using that uid by (simp_all add: Inv_def)
    then show ?thesis
      using roundTrip_lifecycle [where cb = "createXmlRoundTripTestCallback c X tc" and ws = ws
          and s = t and f = f, OF _ _ frame_roundTrip]
      by (auto simp: Inv_def)
  qed
  obtain runs1 t1 where r1: "run_nodes [] [] ws
        (runTestCases cases (createXmlToBlockTestCallback X)) s = Some (runs1, t1)"
    and i1: "Inv t1"
    and a1: "list_all2 (\<lambda>tc r. \<exists>s0. Inv s0
        \<and> r = run_test [] [] ws (createXmlToBlockTestCallback X tc) s0) cases runs1"
    using run_nodes_tests [of Inv "[]" "[]" ws "createXmlToBlockTestCallback X" s cases,
        OF step1 inv0] by blast
  obtain runs2 t2 where r2: "run_nodes [roundTripSetup] [roundTripTeardown] ws
        (runTestCases cases (createXmlRoundTripTestCallback c X)) t1 = Some (runs2, t2)"
    and i2: "Inv t2"
    and a2: "list_all2 (\<lambda>tc r. \<exists>s0. Inv s0
        \<and> r = run_test [roundTripSetup] [roundTripTeardown] ws
              (createXmlRoundTripTestCallback c X tc) s0) cases runs2"
    using run_nodes_tests [of Inv "[roundTripSetup]" "[roundTripTeardown]" ws
        "createXmlRoundTripTestCallback c X" t1 cases, OF step2 i1] by blast
  have run: "run_mocha ws (runSerializationTestSuite c X cases) s = Some (runs1 @ runs2, t2)"
    by (simp add: run_mocha_def runSerializationTestSuite_def r1 r2)
  have p1: "list_all2 (\<lambda>tc r. \<exists>s0 s1 s2.
          r = run_test [] [] ws (createXmlToBlockTestCallback X tc) s0
        \<and> entered r = Some s1 \<and> left r = Some s2
        \<and> genUid s1 = JFun f \<and> genUid s2 = JFun f \<and> genUid (finished r) = JFun f)
        cases runs1"
  proof (rule list_all2_mono [OF a1])
    fix tc r
    assume "\<exists>s0. Inv s0 \<and> r = run_test [] [] ws (createXmlToBlockTestCallback X tc) s0"
    then obtain s0 where i: "Inv s0"
      and r: "r = run_test [] [] ws (createXmlToBlockTestCallback X tc) s0" by blast
    note lc = xmlToBlock_lifecycle [where cb = "createXmlToBlockTestCallback X tc" and ws = ws
        and s = s0, OF frame_xmlToBlock]
    have "heap (final (createXmlToBlockTestCallback X tc ws s0)) = heap s"
      using lc i by (simp add: Inv_def)
    then have "genUid (final (createXmlToBlockTestCallback X tc ws s0)) = JFun f"
      using genUid_heap [of _ s] assms(2) by simp
    then show "\<exists>s0 s1 s2.
          r = run_test [] [] ws (createXmlToBlockTestCallback X tc) s0
        \<and> entered r = Some s1 \<and> left r = Some s2
        \<and> genUid s1 = JFun f \<and> genUid s2 = JFun f \<and> genUid (finished r) = JFun f"
      using lc r uid [OF i] by auto
  qed
  have p2: "list_all2 (\<lambda>tc r. \<exists>s0 s1 s2.
          r = run_test [roundTripSetup] [roundTripTeardown] ws
                (createXmlRoundTripTestCallback c X tc) s0
        \<and> genUid s0 = JFun f
        \<and> entered r = Some s1 \<and> left r = Some s2
        \<and> genUid s1 = JStub (JStr ''1'') \<and> genUid s2 = JStub (JStr ''1'')
        \<and> (\<forall>impl t. invoke impl (genUid s1) t = Inr (JStr ''1''))
        \<and> genUid (finished r) = JFun f)
        cases runs2"
  proof (rule list_all2_mono [OF a2])
    fix tc r
    assume "\<exists>s0. Inv s0 \<and> r = run_test [roundTripSetup] [roundTripTeardown] ws
              (createXmlRoundTripTestCallback c X tc) s0"
    then obtain s0 where i: "Inv s0"
      and r: "r = run_test [roundTripSetup] [roundTripTeardown] ws
              (createXmlRoundTripTestCallback c X tc) s0" by blast
    have sb: "sandbox s0 = []" using i by (simp add: Inv_def)
    obtain s1 s2 where e: "entered r = Some s1" and l: "left r = Some s2"
      and g1: "genUid s1 = JStub (JStr ''1'')" and g2: "genUid s2 = JStub (JStr ''1'')"
      and hp: "heap (finished r) = heap s0"
      using roundTrip_lifecycle [where cb = "createXmlRoundTripTestCallback c X tc" and ws = ws,
          OF sb uid [OF i] frame_roundTrip] r by blast
    have "genUid (finished r) = JFun f"
      using genUid_heap [OF hp] uid [OF i] by simp
    then show "\<exists>s0 s1 s2.
          r = run_test [roundTripSetup] [roundTripTeardown] ws
                (createXmlRoundTripTestCallback c X tc) s0
        \<and> genUid s0 = JFun f
        \<and> entered r = Some s1 \<and> left r = Some s2
        \<and> genUid s1 = JStub (JStr ''1'') \<and> genUid s2 = JStub (JStr ''1'')
        \<and> (\<forall>impl t. invoke impl (genUid s1) t = Inr (JStr ''1''))
        \<and> genUid (finished r) = JFun f"
      using r e l g1 g2 uid [OF i] by auto
  qed
  show ?thesis
    using run p1 p2 uid [OF i2] by blast
qed

text \<open>Two cases on the toy toolkit: four tests run, and function 7 is back at the end.\<close>

theorem genUid_stubbed_around_each_roundTrip_witness:
  "sandbox toy_world = [] \<and> genUid toy_world = JFun 7
   \<and> (\<exists>runs1 runs2 s'.
        run_mocha toy_workspace
          (runSerializationTestSuite toy_chai toy_Xml [textCase, emptyExpectedCase]) toy_world
          = Some (runs1 @ runs2, s')
        \<and> length runs1 = 2 \<and> length runs2 = 2 \<and> genUid s' = JFun 7)"
proof -
  have h1: "sandbox toy_world = []"
    by (simp add: toy_world_def)
  have h2: "genUid toy_world = JFun 7"
    by (simp add: genUid_def js_get_def Blockly_utils_def toy_world_def)
  from genUid_stubbed_around_each_roundTrip [OF h1 h2, of toy_workspace toy_chai toy_Xml "[textCase, emptyExpectedCase]"]
  obtain runs1 runs2 s' where
    "run_mocha toy_workspace
          (runSerializationTestSuite toy_chai toy_Xml [textCase, emptyExpectedCase]) toy_world
          = Some (runs1 @ runs2, s')"
    "length [textCase, emptyExpectedCase] = length runs1"
    "length [textCase, emptyExpectedCase] = length runs2"
    "genUid s' = JFun 7"
    by (blast dest: list_all2_lengthD)
  then have "run_mocha toy_workspace
          (runSerializationTestSuite toy_chai toy_Xml [textCase, emptyExpectedCase]) toy_world
          = Some (runs1 @ runs2, s')
        \<and> length runs1 = 2 \<and> length runs2 = 2 \<and> genUid s' = JFun 7"
    by simp
  then have "\<exists>runs1 runs2 s'.
        run_mocha toy_workspace
          (runSerializationTestSuite toy_chai toy_Xml [textCase, emptyExpectedCase]) toy_world
          = Some (runs1 @ runs2, s')
        \<and> length runs1 = 2 \<and> length runs2 = 2 \<and> genUid s' = JFun 7"
    by blast
  with h1 h2 show ?thesis by blast
qed

text \<open>
  Claim C4. After \<^verbatim>\<open>createBlock\<close> has returned the block, the whole run of the callback
  (its result, the world it leaves and the calls it makes) is as follows. When
  \<^verbatim>\<open>useWorkspaceToCode\<close> is truthy, \<^verbatim>\<open>workspaceToCode\<close> runs on the test's workspace in
  the world \<^verbatim>\<open>createBlock\<close> left; the callback calls neither \<^verbatim>\<open>init\<close> nor
  \<^verbatim>\<open>blockToCode\<close>; it throws what \<^verbatim>\<open>workspaceToCode\<close> throws, and otherwise the value
  \<^verbatim>\<open>workspaceToCode\<close> returned is the code that the assertion on the code receives,
  which ends the test. Otherwise \<^verbatim>\<open>init\<close> runs on the workspace in the world
  \<^verbatim>\<open>createBlock\<close> left, then \<^verbatim>\<open>blockToCode\<close> runs on the created block in the world
  \<^verbatim>\<open>init\<close> left; the callback never calls \<^verbatim>\<open>workspaceToCode\<close>; it throws what \<^verbatim>\<open>init\<close>
  throws, without calling \<^verbatim>\<open>blockToCode\<close>, or what \<^verbatim>\<open>blockToCode\<close> throws; and otherwise
  what \<^verbatim>\<open>blockToCode\<close> returned (its first element when it is an array) is the code
  that the assertion on the code receives, followed by the assertion on the order when
  the first one holds and \<^verbatim>\<open>expectedInnerOrder\<close> is not \<^verbatim>\<open>undefined\<close>.
\<close>

theorem codegen_workspace_or_block_mode:
  fixes c g tc ws s R
  defines "R \<equiv> createCodeGenerationTestFn c g tc ws s"
  assumes "createBlock tc ws s = (Inr block, w1)"
  shows "(truthy (useWorkspaceToCode tc) \<longrightarrow>
            (\<forall>e \<in> set (events R). \<forall>w b. e \<noteq> CallInit w \<and> e \<noteq> CallBlockToCode b)
          \<and> (\<forall>e w2. workspaceToCode g ws (s\<lparr>ext := w1\<rparr>) = (Inl e, w2) \<longrightarrow>
                R = (Inl e, s\<lparr>ext := w2\<rparr>, [CallCreateBlock ws, CallWorkspaceToCode ws]))
          \<and> (\<forall>code w2. workspaceToCode g ws (s\<lparr>ext := w1\<rparr>) = (Inr code, w2) \<longrightarrow>
                R = (let A = (if js_typeof (expectedCode tc) = ''string''
                              then assert_equal c code (expectedCode tc) (s\<lparr>ext := w2\<rparr>)
                              else assert_match c code (expectedCode tc) (s\<lparr>ext := w2\<rparr>))
                     in (result A, s\<lparr>ext := w2\<rparr>,
                         [CallCreateBlock ws, CallWorkspaceToCode ws] @ events A))))
       \<and> (\<not> truthy (useWorkspaceToCode tc) \<longrightarrow>
            (\<forall>e \<in> set (events R). \<forall>w. e \<noteq> CallWorkspaceToCode w)
          \<and> (\<forall>e w2. init g ws (s\<lparr>ext := w1\<rparr>) = (Inl e, w2) \<longrightarrow>
                R = (Inl e, s\<lparr>ext := w2\<rparr>, [CallCreateBlock ws, CallInit ws]))
          \<and> (\<forall>v w2 e w3. init g ws (s\<lparr>ext := w1\<rparr>) = (Inr v, w2)
                  \<and> blockToCode g block (s\<lparr>ext := w2\<rparr>) = (Inl e, w3) \<longrightarrow>
                R = (Inl e, s\<lparr>ext := w3\<rparr>,
                     [CallCreateBlock ws, CallInit ws, CallBlockToCode block]))
          \<and> (\<forall>v w2 r w3. init g ws (s\<lparr>ext := w1\<rparr>) = (Inr v, w2)
                  \<and> blockToCode g block (s\<lparr>ext := w2\<rparr>) = (Inr r, w3) \<longrightarrow>
                R = (let code = (if isArray r then js_index r 0 else r);
                         innerOrder = (if isArray r then js_index r 1 else JUndefined);
                         A = (if js_typeof (expectedCode tc) = ''string''
                              then assert_equal c code (expectedCode tc) (s\<lparr>ext := w3\<rparr>)
                              else assert_match c code (expectedCode tc) (s\<lparr>ext := w3\<rparr>))
                     in if result A = Inr () \<and> expectedInnerOrder tc \<noteq> JUndefined
                        then (result (assert_equal c innerOrder (expectedInnerOrder tc)
                                        (s\<lparr>ext := w3\<rparr>)),
                              s\<lparr>ext := w3\<rparr>,
                              [CallCreateBlock ws, CallInit ws, CallBlockToCode block]
                              @ events A
                              @ [CallAssertEqual innerOrder (expectedInnerOrder tc)])
                        else (result A, s\<lparr>ext := w3\<rparr>,
                              [CallCreateBlock ws, CallInit ws, CallBlockToCode block]
                              @ events A))))"
proof -
  let ?s1 = "s\<lparr>ext := w1\<rparr>"
  obtain rest where ev: "events R =
      CallCreateBlock ws # events (codeAndInnerOrder g tc ws block ?s1) @ rest"
    and rest: "list_all is_assertion rest"
    using codegen_events [OF assms(2), of c g] unfolding R_def by blast
  have na: "\<forall>e \<in> set rest. \<forall>w b. e \<noteq> CallInit w \<and> e \<noteq> CallBlockToCode b \<and> e \<noteq> CallWorkspaceToCode w"
    using rest by (auto simp: list_all_iff)
  show ?thesis
  proof (cases "truthy (useWorkspaceToCode tc)")
    case True
    have e: "events (codeAndInnerOrder g tc ws block ?s1) = [CallWorkspaceToCode ws]"
      using True by (rule ws_mode_events)
    have labels: "\<forall>e \<in> set (events R). \<forall>w b. e \<noteq> CallInit w \<and> e \<noteq> CallBlockToCode b"
      using na by (auto simp: ev e)
    have err: "R = (Inl e, s\<lparr>ext := w2\<rparr>, [CallCreateBlock ws, CallWorkspaceToCode ws])"
      if "workspaceToCode g ws ?s1 = (Inl e, w2)" for e w2
    proof -
      have "codeAndInnerOrder g tc ws block ?s1 = (Inl e, s\<lparr>ext := w2\<rparr>, [CallWorkspaceToCode ws])"
        using that by (simp add: ws_mode_code [OF True])
      from codegen_code_error [OF assms(2) this] show ?thesis
        unfolding R_def by simp
    qed
    have ok: "R = (let A = (if js_typeof (expectedCode tc) = ''string''
                              then assert_equal c code (expectedCode tc) (s\<lparr>ext := w2\<rparr>)
                              else assert_match c code (expectedCode tc) (s\<lparr>ext := w2\<rparr>))
                     in (result A, s\<lparr>ext := w2\<rparr>,
                         [CallCreateBlock ws, CallWorkspaceToCode ws] @ events A))"
      if "workspaceToCode g ws ?s1 = (Inr code, w2)" for code w2
    proof -
      have "codeAndInnerOrder g tc ws block ?s1 =
          (Inr (code, JUndefined), s\<lparr>ext := w2\<rparr>, [CallWorkspaceToCode ws])"
        using that by (simp add: ws_mode_code [OF True])
      from codegen_after_code [OF assms(2) this, of c] show ?thesis
        unfolding R_def using True by (simp add: Let_def)
    qed
    show ?thesis
      using True labels err ok by blast
  next
    case False
    have e: "events (codeAndInnerOrder g tc ws block ?s1) =
       CallInit ws # (case init g ws ?s1 of (Inl e, w) \<Rightarrow> [] | (Inr v, w) \<Rightarrow> [CallBlockToCode block])"
      using False by (rule block_mode_events)
    have labels: "\<forall>e \<in> set (events R). \<forall>w. e \<noteq> CallWorkspaceToCode w"
      using na by (auto simp: ev e split: prod.splits sum.splits)
    have err1: "R = (Inl e, s\<lparr>ext := w2\<rparr>, [CallCreateBlock ws, CallInit ws])"
      if "init g ws ?s1 = (Inl e, w2)" for e w2
      using codegen_code_error [OF assms(2) block_mode_init_error [OF False that]]
      unfolding R_def by simp
    have err2: "R = (Inl e, s\<lparr>ext := w3\<rparr>,
                     [CallCreateBlock ws, CallInit ws, CallBlockToCode block])"
      if "init g ws ?s1 = (Inr v, w2) \<and> blockToCode g block (s\<lparr>ext := w2\<rparr>) = (Inl e, w3)"
      for v w2 e w3
    proof -
      have "codeAndInnerOrder g tc ws block ?s1 =
          (Inl e, s\<lparr>ext := w3\<rparr>, [CallInit ws, CallBlockToCode block])"
        using block_mode_code_error [OF False, of g ws ?s1 v w2 block e w3] that by simp
      from codegen_code_error [OF assms(2) this] show ?thesis
        unfolding R_def by simp
    qed
    have ok: "R = (let code = (if isArray r then js_index r 0 else r);
                         innerOrder = (if isArray r then js_index r 1 else JUndefined);
                         A = (if js_typeof (expectedCode tc) = ''string''
                              then assert_equal c code (expectedCode tc) (s\<lparr>ext := w3\<rparr>)
                              else assert_match c code (expectedCode tc) (s\<lparr>ext := w3\<rparr>))
                     in if result A = Inr () \<and> expectedInnerOrder tc \<noteq> JUndefined
                        then (result (assert_equal c innerOrder (expectedInnerOrder tc)
                                        (s\<lparr>ext := w3\<rparr>)),
                              s\<lparr>ext := w3\<rparr>,
                              [CallCreateBlock ws, CallInit ws, CallBlockToCode block]
                              @ events A
                              @ [CallAssertEqual innerOrder (expectedInnerOrder tc)])
                        else (result A, s\<lparr>ext := w3\<rparr>,
                              [CallCreateBlock ws, CallInit ws, CallBlockToCode block]
                              @ events A))"
      if "init g ws ?s1 = (Inr v, w2) \<and> blockToCode g block (s\<lparr>ext := w2\<rparr>) = (Inr r, w3)"
      for v w2 r w3
    proof -
      have "codeAndInnerOrder g tc ws block ?s1 =
          (Inr (if isArray r then js_index r 0 else r,
                if isArray r then js_index r 1 else JUndefined),
           s\<lparr>ext := w3\<rparr>, [CallInit ws, CallBlockToCode block])"
        using block_mode_code [OF False, of g ws ?s1 v w2 block r w3] that by simp
      from codegen_after_code [OF assms(2) this, of c] show ?thesis
        unfolding R_def using False by (simp add: Let_def)
    qed
    show ?thesis
      using False labels err1 err2 ok by blast
  qed
qed

text \<open>
  A single-block case and a whole-workspace case on the toy toolkit, with the whole run
  of each.
\<close>

theorem codegen_workspace_or_block_mode_witness:
  "createBlock numberCase toy_workspace toy_world = (Inr (JObj 0), [''5''])
   \<and> \<not> truthy (useWorkspaceToCode numberCase)
   \<and> init toy_generator toy_workspace (toy_world\<lparr>ext := [''5'']\<rparr>) = (Inr JUndefined, [''5''])
   \<and> blockToCode toy_generator (JObj 0) (toy_world\<lparr>ext := [''5'']\<rparr>)
       = (Inr (JArr [JStr ''5'', JNum 0]), [''5''])
   \<and> createCodeGenerationTestFn toy_chai toy_generator numberCase toy_workspace toy_world
       = (Inr (), toy_world\<lparr>ext := [''5'']\<rparr>,
          [CallCreateBlock toy_workspace, CallInit toy_workspace, CallBlockToCode (JObj 0),
           CallAssertEqual (JStr ''5'') (JStr ''5''), CallAssertEqual (JNum 0) (JNum 0)])
   \<and> createBlock workspaceCase toy_workspace toy_world = (Inr (JObj 0), [''5''])
   \<and> truthy (useWorkspaceToCode workspaceCase)
   \<and> workspaceToCode toy_generator toy_workspace (toy_world\<lparr>ext := [''5'']\<rparr>)
       = (Inr (JStr ''5;''), [''5''])
   \<and> createCodeGenerationTestFn toy_chai toy_generator workspaceCase toy_workspace toy_world
       = (Inr (), toy_world\<lparr>ext := [''5'']\<rparr>,
          [CallCreateBlock toy_workspace, CallWorkspaceToCode toy_workspace,
           CallAssertEqual (JStr ''5;'') (JStr ''5;'')])"
proof -
  have t: "\<not> truthy (useWorkspaceToCode numberCase)" "truthy (useWorkspaceToCode workspaceCase)"
    and i: "init toy_generator toy_workspace (toy_world\<lparr>ext := [''5'']\<rparr>) = (Inr JUndefined, [''5''])"
    and b: "blockToCode toy_generator (JObj 0) (toy_world\<lparr>ext := [''5'']\<rparr>)
       = (Inr (JArr [JStr ''5'', JNum 0]), [''5''])"
    and w: "workspaceToCode toy_generator toy_workspace (toy_world\<lparr>ext := [''5'']\<rparr>)
       = (Inr (JStr ''5;''), [''5''])"
    and e: "expectedCode numberCase = JStr ''5''" "expectedInnerOrder numberCase = JNum 0"
      "expectedCode workspaceCase = JStr ''5;''"
    by (simp_all add: toy_defs)
  show ?thesis
    using codegen_workspace_or_block_mode [where c = toy_chai and g = toy_generator, OF number_block]
      codegen_workspace_or_block_mode [where c = toy_chai and g = toy_generator, OF workspace_block]
    by (simp add: number_block workspace_block t i b w e Let_def assert_equal_def
        result_def events_def loose_eq_str loose_eq_num)
qed



text \<open>
  Claim C6. When the callback gets past the assertion on the code, it goes on to
  \<^verbatim>\<open>assert.equal(innerOrder, expectedInnerOrder)\<close> exactly when \<^verbatim>\<open>useWorkspaceToCode\<close>
  is falsy and \<^verbatim>\<open>expectedInnerOrder\<close> is not \<^verbatim>\<open>undefined\<close>, and makes no further call
  otherwise; the test then fails exactly when that assertion is made and does not hold.
  Between two numbers the assertion holds exactly when they are equal.
\<close>

theorem codegen_order_assertion:
  fixes c g tc ws s R
  defines "R \<equiv> createCodeGenerationTestFn c g tc ws s"
  assumes "createBlock tc ws s = (Inr block, w1)"
    and "codeAndInnerOrder g tc ws block (s\<lparr>ext := w1\<rparr>) = (Inr (code, innerOrder), s2, e2)"
    and "result (assertFunc c (expectedCode tc) code (expectedCode tc) s2) = Inr ()"
  shows "events R =
           CallCreateBlock ws # e2
           @ events (assertFunc c (expectedCode tc) code (expectedCode tc) s2)
           @ (if \<not> truthy (useWorkspaceToCode tc) \<and> expectedInnerOrder tc \<noteq> JUndefined
              then [CallAssertEqual innerOrder (expectedInnerOrder tc)] else [])
       \<and> result R =
           (if \<not> truthy (useWorkspaceToCode tc) \<and> expectedInnerOrder tc \<noteq> JUndefined
               \<and> \<not> js_loose_eq c innerOrder (expectedInnerOrder tc)
            then Inl AssertionError else Inr ())
       \<and> (\<forall>x y. innerOrder = JNum x \<and> expectedInnerOrder tc = JNum y \<longrightarrow>
             js_loose_eq c innerOrder (expectedInnerOrder tc) = (x = y))"
  using assms(4) unfolding R_def codegen_unfold [OF assms(2,3)]
  by (auto simp: assertFunc_run events_def result_def assert_equal_def loose_eq_num
      split: sum.splits if_splits)

text \<open>
  The single-block case asserts the order; the whole-workspace case has an expected
  inner order and asserts nothing about it.
\<close>

theorem codegen_order_assertion_witness:
  "createBlock numberCase toy_workspace toy_world = (Inr (JObj 0), [''5''])
   \<and> codeAndInnerOrder toy_generator numberCase toy_workspace (JObj 0) (toy_world\<lparr>ext := [''5'']\<rparr>)
       = (Inr (JStr ''5'', JNum 0), toy_world\<lparr>ext := [''5'']\<rparr>,
          [CallInit toy_workspace, CallBlockToCode (JObj 0)])
   \<and> result (assertFunc toy_chai (expectedCode numberCase) (JStr ''5'') (expectedCode numberCase)
                (toy_world\<lparr>ext := [''5'']\<rparr>)) = Inr ()
   \<and> events (createCodeGenerationTestFn toy_chai toy_generator numberCase toy_workspace toy_world)
       = [CallCreateBlock toy_workspace, CallInit toy_workspace, CallBlockToCode (JObj 0),
          CallAssertEqual (JStr ''5'') (JStr ''5''), CallAssertEqual (JNum 0) (JNum 0)]
   \<and> result (createCodeGenerationTestFn toy_chai toy_generator numberCase toy_workspace toy_world)
       = Inr ()
   \<and> expectedInnerOrder workspaceCase = JNum 3
   \<and> events (createCodeGenerationTestFn toy_chai toy_generator workspaceCase toy_workspace toy_world)
       = [CallCreateBlock toy_workspace, CallWorkspaceToCode toy_workspace,
          CallAssertEqual (JStr ''5;'') (JStr ''5;'')]"
proof -
  have e: "expectedCode numberCase = JStr ''5''" "expectedInnerOrder numberCase = JNum 0"
    "\<not> truthy (useWorkspaceToCode numberCase)"
    and e': "expectedCode workspaceCase = JStr ''5;''" "expectedInnerOrder workspaceCase = JNum 3"
    "truthy (useWorkspaceToCode workspaceCase)"
    by (simp_all add: toy_defs)
  have a: "result (assertFunc toy_chai (expectedCode numberCase) (JStr ''5'') (expectedCode numberCase)
                (toy_world\<lparr>ext := [''5'']\<rparr>)) = Inr ()"
    by (simp add: e assertFunc_run result_def loose_eq_str)
  have a': "result (assertFunc toy_chai (expectedCode workspaceCase) (JStr ''5;'')
                (expectedCode workspaceCase) (toy_world\<lparr>ext := [''5'']\<rparr>)) = Inr ()"
    by (simp add: e' assertFunc_run result_def loose_eq_str)
  show ?thesis
    using codegen_order_assertion [OF number_block number_code a] codegen_order_assertion [OF workspace_block workspace_code a'] a
    by (simp add: number_block number_code e e' assertFunc_run events_def loose_eq_num)
qed

text \<open>
  Claim C7. When parsing and conversion return, the \<^verbatim>\<open>xmlToBlock\<close> callback has made
  exactly three calls: \<^verbatim>\<open>textToDom\<close> on the case's \<^verbatim>\<open>xml\<close>, \<^verbatim>\<open>domToBlock\<close> on the
  resulting DOM and the test's workspace, and the case's \<^verbatim>\<open>assertBlockStructure\<close> on the
  resulting block; the test throws what \<^verbatim>\<open>assertBlockStructure\<close> throws, and leaves the
  toolkit as that call left it.
\<close>

theorem xmlToBlock_parses_converts_asserts:
  fixes X tc ws s R
  defines "R \<equiv> createXmlToBlockTestCallback X tc ws s"
  assumes "textToDom X (xml tc) s = (Inr d, w1)"
    and "domToBlock X d ws (s\<lparr>ext := w1\<rparr>) = (Inr block, w2)"
  shows "events R = [CallTextToDom (xml tc), CallDomToBlock d ws, CallAssertBlockStructure block]
       \<and> thrown (result R) = thrown (fst (assertBlockStructure tc block (s\<lparr>ext := w2\<rparr>)))
       \<and> ext (final R) = snd (assertBlockStructure tc block (s\<lparr>ext := w2\<rparr>))"
  unfolding R_def xmlToBlock_run [OF assms(2,3)]
  by (simp add: events_def result_def final_def thrown_def split: prod.splits sum.splits)

text \<open>The three calls on the toy toolkit.\<close>

theorem xmlToBlock_parses_converts_asserts_witness:
  "textToDom toy_Xml (xml textCase) toy_world
     = (Inr (JObj 0), [''<block><field>hi</field></block>''])
   \<and> domToBlock toy_Xml (JObj 0) toy_workspace
       (toy_world\<lparr>ext := [''<block><field>hi</field></block>'']\<rparr>)
     = (Inr (JObj 1), [''<block><field>hi</field></block>'', ''<block><field>hi</field></block>''])
   \<and> events (createXmlToBlockTestCallback toy_Xml textCase toy_workspace toy_world)
     = [CallTextToDom (JStr ''<block><field>hi</field></block>''),
        CallDomToBlock (JObj 0) toy_workspace, CallAssertBlockStructure (JObj 1)]
   \<and> thrown (result (createXmlToBlockTestCallback toy_Xml textCase toy_workspace toy_world))
     = None"
proof -
  have x: "xml textCase = JStr ''<block><field>hi</field></block>''"
    and a: "assertBlockStructure textCase b s = (Inr JUndefined, ext s)" for b s
    by (simp_all add: textCase_def)
  note run = xmlToBlock_parses_converts_asserts [of toy_Xml textCase toy_world _ _ toy_workspace, unfolded x,
      OF toy_parse toy_block]
  show ?thesis
    using run by (simp add: x a toy_parse toy_block thrown_def)
qed

text \<open>
  Claim C9. When \<^verbatim>\<open>expectedXml\<close> is the empty string, or any other falsy value, the last
  call of the round-trip callback is \<^verbatim>\<open>assert.equal\<close> of the printed text and the case's
  \<^verbatim>\<open>xml\<close>, and the test passes or fails by that comparison alone.
\<close>

theorem roundTrip_falsy_expectedXml_uses_xml:
  fixes c X tc ws s R
  defines "R \<equiv> createXmlRoundTripTestCallback c X tc ws s"
  assumes "expectedXml tc \<in> {JStr '''', JUndefined, JNull, JBool False, JNum 0, JNaN}"
    and "textToDom X (xml tc) s = (Inr d, w1)"
    and "domToBlock X d ws (s\<lparr>ext := w1\<rparr>) = (Inr block, w2)"
    and "blockToDom X block (s\<lparr>ext := w2\<rparr>) = (Inr d2, w3)"
    and "domToPrettyText X d2 (s\<lparr>ext := w3\<rparr>) = (Inr generatedXml, w4)"
  shows "last (events R) = CallAssertEqual generatedXml (xml tc)
       \<and> result R = (if js_loose_eq c generatedXml (xml tc) then Inr () else Inl AssertionError)"
proof -
  have "\<not> truthy (expectedXml tc)"
    using assms(2) by (auto simp: falsy_iff)
  then show ?thesis
    unfolding R_def roundTrip_run [OF assms(3-6)]
    by (simp add: events_def result_def js_or_def)
qed

text \<open>A case whose \<^verbatim>\<open>expectedXml\<close> is the empty string, on the toy toolkit.\<close>

theorem roundTrip_falsy_expectedXml_uses_xml_witness:
  "expectedXml emptyExpectedFieldCase = JStr ''''
   \<and> textToDom toy_Xml (xml emptyExpectedFieldCase) toy_world
     = (Inr (JObj 0), [''<block><field>0</field></block>''])
   \<and> last (events (createXmlRoundTripTestCallback toy_chai toy_Xml emptyExpectedFieldCase
                    toy_workspace toy_world))
       = CallAssertEqual (JStr ''<block><field>0</field></block>'')
           (JStr ''<block><field>0</field></block>'')
   \<and> result (createXmlRoundTripTestCallback toy_chai toy_Xml emptyExpectedFieldCase
                toy_workspace toy_world) = Inr ()"
proof -
  have x: "xml emptyExpectedFieldCase = JStr ''<block><field>0</field></block>''"
    and e: "expectedXml emptyExpectedFieldCase = JStr ''''"
    by (simp_all add: emptyExpectedFieldCase_def)
  have f: "expectedXml emptyExpectedFieldCase
      \<in> {JStr '''', JUndefined, JNull, JBool False, JNum 0, JNaN}"
    by (simp add: e)
  note run = roundTrip_falsy_expectedXml_uses_xml [OF f, of toy_Xml toy_world _ _ toy_workspace _ _ _ _ _ _ toy_chai,
      unfolded x, OF toy_parse toy_block toy_dom toy_print]
  show ?thesis
    using run by (simp add: x e toy_parse loose_eq_str)
qed

text \<open>
  Claim C10, as amended. Take any world in which the default sandbox of sinon notes each
  property once and notes no stub as a value to write back. After the lifecycle of a
  round-trip test (setup, callback, teardown) the default sandbox is empty; every
  property it noted at the start, whoever had stubbed it, holds the value noted for it,
  and every other property holds what it held at the start. A property that still holds
  a stub held that stub at the start and was not noted in the default sandbox: no stub
  made with \<^verbatim>\<open>sinon.stub\<close>, and so none installed by this file, remains. When the
  identifier function was a function of the toolkit, the callback started and ended with
  the stub that returns \<^verbatim>\<open>'1'\<close>; and any property the setup changed held that stub
  during the callback and holds no stub afterwards.
\<close>

theorem teardown_restores_default_sandbox:
  fixes c X tc ws s r
  defines "r \<equiv> run_test [roundTripSetup] [roundTripTeardown] ws
                  (createXmlRoundTripTestCallback c X tc) s"
  assumes "distinct (map fst (sandbox s))"
    and "\<forall>l orig v. (l, orig) \<in> set (sandbox s) \<longrightarrow> orig \<noteq> JStub v"
  shows "sandbox (finished r) = []
       \<and> (\<forall>l. heap (finished r) l =
               (case map_of (sandbox s) l of Some orig \<Rightarrow> orig | None \<Rightarrow> heap s l))
       \<and> (\<forall>l v. heap (finished r) l = JStub v \<longrightarrow>
               map_of (sandbox s) l = None \<and> heap s l = JStub v)
       \<and> (\<forall>f. genUid s = JFun f \<longrightarrow>
             (\<exists>s1 s2. entered r = Some s1 \<and> left r = Some s2
                  \<and> genUid s1 = JStub (JStr ''1'') \<and> genUid s2 = JStub (JStr ''1'')))
       \<and> (\<forall>s1 l. entered r = Some s1 \<and> heap s1 l \<noteq> heap s l \<longrightarrow>
               heap s1 l = JStub (JStr ''1'') \<and> (\<forall>v. heap (finished r) l \<noteq> JStub v))"
proof -
  note fr = frame_roundTrip [of c X tc ws]
  have hp: "sandbox (finished r) = []"
    "heap (finished r) l =
       (case map_of (sandbox s) l of Some orig \<Rightarrow> orig | None \<Rightarrow> heap s l)" for l
    using roundTrip_lifecycle_heap [where cb = "createXmlRoundTripTestCallback c X tc"
        and ws = ws and s = s and l = l, OF fr assms(2)]
    unfolding r_def by simp_all
  have left_stub: "map_of (sandbox s) l = None \<and> heap s l = JStub v"
    if "heap (finished r) l = JStub v" for l v
  proof (cases "map_of (sandbox s) l")
    case None
    then show ?thesis using that by (simp add: hp)
  next
    case (Some orig)
    then have "(l, orig) \<in> set (sandbox s)" by (rule map_of_SomeD)
    then have "orig \<noteq> JStub v" using assms(3) by blast
    then show ?thesis using that Some by (simp add: hp)
  qed
  have inside: "\<exists>s1 s2. entered r = Some s1 \<and> left r = Some s2
                  \<and> genUid s1 = JStub (JStr ''1'') \<and> genUid s2 = JStub (JStr ''1'')"
    if "genUid s = JFun f" for f
    using roundTrip_stubbed_inside [where cb = "createXmlRoundTripTestCallback c X tc"
        and ws = ws, OF that fr]
    unfolding r_def .
  have changed: "heap s1 l = JStub (JStr ''1'') \<and> (\<forall>v. heap (finished r) l \<noteq> JStub v)"
    if "entered r = Some s1 \<and> heap s1 l \<noteq> heap s l" for s1 l
  proof -
    from roundTrip_run_test [where cb = "createXmlRoundTripTestCallback c X tc"
        and ws = ws and s = s, OF fr] that
    have su: "roundTripSetup s = (Inr (), s1, [])"
      unfolding r_def by auto
    from setup_shape [of s] su obtain l0 x where
      s1: "s1 = s\<lparr>heap := (heap s)(l0 := x), sandbox := (l0, heap s l0) # sandbox s\<rparr>"
      and x: "x = heap s l0 \<or> x = JStub (JStr ''1'') \<and> (\<exists>f. heap s l0 = JFun f)"
      by auto
    have l: "l = l0" and "x \<noteq> heap s l0"
      using that s1 by (auto split: if_splits)
    then obtain f where st: "x = JStub (JStr ''1'')" and hf: "heap s l0 = JFun f"
      using x by blast
    have "heap (finished r) l \<noteq> JStub v" for v
      using left_stub [of l v] hf l by auto
    then show ?thesis
      using s1 l st by simp
  qed
  show ?thesis
    using hp left_stub inside changed by blast
qed

text \<open>
  A world where another helper had stubbed \<^verbatim>\<open>now\<close> of object 5 with \<^verbatim>\<open>sinon.stub\<close>: after
  one round-trip test that stub is gone as well, and \<^verbatim>\<open>genUid\<close> is function 7 again.
\<close>

theorem teardown_restores_default_sandbox_witness:
  "distinct (map fst (sandbox toy_world_stubbed))
   \<and> sandbox toy_world_stubbed = [((5, ''now''), JFun 9)]
   \<and> heap toy_world_stubbed (5, ''now'') = JStub (JNum 0)
   \<and> genUid toy_world_stubbed = JFun 7
   \<and> sandbox (finished (run_test [roundTripSetup] [roundTripTeardown] toy_workspace
        (createXmlRoundTripTestCallback toy_chai toy_Xml textCase) toy_world_stubbed)) = []
   \<and> heap (finished (run_test [roundTripSetup] [roundTripTeardown] toy_workspace
        (createXmlRoundTripTestCallback toy_chai toy_Xml textCase) toy_world_stubbed))
        (5, ''now'') = JFun 9
   \<and> heap (finished (run_test [roundTripSetup] [roundTripTeardown] toy_workspace
        (createXmlRoundTripTestCallback toy_chai toy_Xml textCase) toy_world_stubbed))
        (0, ''genUid'') = JFun 7
   \<and> (\<exists>s1. entered (run_test [roundTripSetup] [roundTripTeardown] toy_workspace
        (createXmlRoundTripTestCallback toy_chai toy_Xml textCase) toy_world_stubbed) = Some s1
        \<and> genUid s1 = JStub (JStr ''1''))"
proof -
  have h1: "distinct (map fst (sandbox toy_world_stubbed))"
    by (simp add: toy_world_stubbed_def)
  have h2: "\<forall>l orig v. (l, orig) \<in> set (sandbox toy_world_stubbed) \<longrightarrow> orig \<noteq> JStub v"
    by (simp add: toy_world_stubbed_def)
  have h3: "sandbox toy_world_stubbed = [((5, ''now''), JFun 9)]"
    "heap toy_world_stubbed (5, ''now'') = JStub (JNum 0)"
    by (simp_all add: toy_world_stubbed_def)
  have g: "genUid toy_world_stubbed = JFun 7"
    by (simp add: genUid_def js_get_def Blockly_utils_def toy_world_stubbed_def)
  have m: "map_of (sandbox toy_world_stubbed) (5, ''now'') = Some (JFun 9)"
    "map_of (sandbox toy_world_stubbed) (0, ''genUid'') = None"
    "heap toy_world_stubbed (0, ''genUid'') = JFun 7"
    by (simp_all add: toy_world_stubbed_def)
  note inst = teardown_restores_default_sandbox [OF h1 h2, of toy_workspace toy_chai toy_Xml textCase]
  note empty = inst [THEN conjunct1]
  note heaps = inst [THEN conjunct2, THEN conjunct1]
  note inside = inst [THEN conjunct2, THEN conjunct2, THEN conjunct2, THEN conjunct1,
      THEN spec, THEN mp, OF g]
  have now: "heap (finished (run_test [roundTripSetup] [roundTripTeardown] toy_workspace
        (createXmlRoundTripTestCallback toy_chai toy_Xml textCase) toy_world_stubbed))
        (5, ''now'') = JFun 9"
    using heaps [THEN spec, of "(5, ''now'')"] by (simp add: m)
  have uid: "heap (finished (run_test [roundTripSetup] [roundTripTeardown] toy_workspace
        (createXmlRoundTripTestCallback toy_chai toy_Xml textCase) toy_world_stubbed))
        (0, ''genUid'') = JFun 7"
    using heaps [THEN spec, of "(0, ''genUid'')"] by (simp add: m)
  from inside obtain s1 where
    "entered (run_test [roundTripSetup] [roundTripTeardown] toy_workspace
        (createXmlRoundTripTestCallback toy_chai toy_Xml textCase) toy_world_stubbed) = Some s1"
    "genUid s1 = JStub (JStr ''1'')"
    by blast
  then have ex: "\<exists>s1. entered (run_test [roundTripSetup] [roundTripTeardown] toy_workspace
        (createXmlRoundTripTestCallback toy_chai toy_Xml textCase) toy_world_stubbed) = Some s1
        \<and> genUid s1 = JStub (JStr ''1'')"
    by blast
  show ?thesis
    by (intro conjI) (rule h1 h3 g empty now uid ex)+
qed

text \<open>
  Claim C10 as worded, with every active sinon stub restored, fails for a stub that the
  default sandbox does not note: a property stubbed through another sandbox of sinon
  holds its stub before the round-trip test and still holds it after the teardown.
\<close>

theorem teardown_keeps_foreign_stub_counterexample:
  "heap toy_world_foreign (6, ''later'') = JStub (JNum 1)
   \<and> heap (finished (run_test [roundTripSetup] [roundTripTeardown] toy_workspace
        (createXmlRoundTripTestCallback toy_chai toy_Xml textCase) toy_world_foreign))
        (6, ''later'') = JStub (JNum 1)"
proof -
  have d: "distinct (map fst (sandbox toy_world_foreign))"
    and m: "map_of (sandbox toy_world_foreign) (6, ''later'') = None"
    and h: "heap toy_world_foreign (6, ''later'') = JStub (JNum 1)"
    by (simp_all add: toy_world_foreign_def)
  show ?thesis
    using roundTrip_lifecycle_heap [where cb = "createXmlRoundTripTestCallback toy_chai toy_Xml textCase"
        and ws = toy_workspace and s = toy_world_foreign and l = "(6, ''later'')",
        OF frame_roundTrip d]
    by (simp add: m h)
qed

end
